theory Spec2Isabelle
  imports Main "HOL-Library.Char_ord" "HOL-Library.List_Lexorder" "HOL-Library.Multiset"
begin

section \<open>The background script of the extension: configuration\<close>

text \<open>
  The constants of \<^verbatim>\<open>CONFIG\<close> (background script, lines 3 to 15). Times are
  milliseconds, as \<^verbatim>\<open>Date.now()\<close> gives them; they are integers.
\<close>

definition TOKEN :: string where
  "TOKEN = ''mbf_token''"

definition AUTH_META :: string where
  "AUTH_META = ''mbf_auth_meta''"

definition HEALTH_CACHE :: string where
  "HEALTH_CACHE = ''mbf_health_cache''"

definition CACHE_DURATION :: int where
  "CACHE_DURATION = 5 * 60 * 1000"

definition AUTH_THROTTLE_INTERVAL :: int where
  "AUTH_THROTTLE_INTERVAL = 2 * 60 * 60 * 1000"

definition REQUIRED_COOKIES :: "string list" where
  "REQUIRED_COOKIES = [''theme'', ''__ddg9_'', ''mangabuff_session'', ''XSRF-TOKEN'']"

definition REMEMBER_WEB_PREFIX :: string where
  "REMEMBER_WEB_PREFIX = ''remember_web''"

text \<open>
  A JavaScript value that is a string, \<^verbatim>\<open>null\<close> or \<^verbatim>\<open>undefined\<close> is a
  \<^typ>\<open>string option\<close>. Such a value is truthy when it is a non-empty string:
  \<^verbatim>\<open>!v\<close> holds for \<^verbatim>\<open>null\<close>, \<^verbatim>\<open>undefined\<close> and \<^verbatim>\<open>""\<close>.
\<close>

definition truthy :: "string option \<Rightarrow> bool" where
  "truthy v = (case v of None \<Rightarrow> False | Some s \<Rightarrow> s \<noteq> [])"

section \<open>The in-memory cache (class Cache)\<close>

text \<open>
  \<^verbatim>\<open>Cache.data\<close> is a Map from keys to items \<^verbatim>\<open>{ value, expiry }\<close>. The time
  that \<^verbatim>\<open>Date.now()\<close> returns inside \<^verbatim>\<open>set\<close> and \<^verbatim>\<open>get\<close> is the first
  argument. The optional argument \<^verbatim>\<open>ttl\<close> defaults to \<^verbatim>\<open>CONFIG.CACHE_DURATION\<close>.
  \<^verbatim>\<open>get\<close> returns \<^verbatim>\<open>null\<close> (here \<open>None\<close>) or the item's value, and the
  map it leaves behind.
\<close>

record 'v item =
  item_value :: 'v
  expiry :: int

type_synonym 'v cache = "string \<rightharpoonup> 'v item"

definition Cache_set :: "int \<Rightarrow> string \<Rightarrow> 'v \<Rightarrow> int option \<Rightarrow> 'v cache \<Rightarrow> 'v cache" where
  "Cache_set now key v ttl c =
     (let expiry = now + (case ttl of None \<Rightarrow> CACHE_DURATION | Some t \<Rightarrow> t)
      in c(key \<mapsto> \<lparr>item_value = v, expiry = expiry\<rparr>))"

definition Cache_get :: "int \<Rightarrow> string \<Rightarrow> 'v cache \<Rightarrow> 'v option \<times> 'v cache" where
  "Cache_get now key c =
     (case c key of
        None \<Rightarrow> (None, c)
      | Some item \<Rightarrow>
          if now > expiry item then (None, c(key := None))
          else (Some (item_value item), c))"

definition Cache_clear :: "'v cache \<Rightarrow> 'v cache" where
  "Cache_clear c = Map.empty"

section \<open>The authentication metadata and the decision to authenticate\<close>

text \<open>
  The metadata object that \<^verbatim>\<open>getAuthMeta\<close> returns and \<^verbatim>\<open>_executeAuth\<close> and
  \<^verbatim>\<open>forceReauth\<close> build (lines 263 to 269, 378 to 384, 484 to 490).
\<close>

record auth_meta =
  lastTime :: int
  lastUser :: "string option"
  lastCsrf :: "string option"
  lastAttempt :: int
  failureCount :: int

record decision =
  shouldAuth :: bool
  reason :: string

text \<open>
  \<^verbatim>\<open>AuthManager.shouldPerformAuth\<close> (lines 287 to 324). Its first argument is the
  value of \<^verbatim>\<open>Date.now()\<close> read at line 288. \<^verbatim>\<open>!==\<close> on values that are
  strings or \<^verbatim>\<open>null\<close> is inequality of \<^typ>\<open>string option\<close>.
\<close>

definition shouldPerformAuth ::
  "int \<Rightarrow> string option \<Rightarrow> auth_meta \<Rightarrow> string option \<Rightarrow> string option \<Rightarrow> decision" where
  "shouldPerformAuth now token meta currentUser currentCsrf =
     (if \<not> truthy token then \<lparr>shouldAuth = True, reason = ''no_token''\<rparr>
      else if \<not> truthy currentCsrf then \<lparr>shouldAuth = False, reason = ''no_csrf''\<rparr>
      else if \<not> truthy currentUser then \<lparr>shouldAuth = False, reason = ''no_user''\<rparr>
      else if currentUser \<noteq> lastUser meta then \<lparr>shouldAuth = True, reason = ''user_changed''\<rparr>
      else if currentCsrf \<noteq> lastCsrf meta then \<lparr>shouldAuth = True, reason = ''csrf_changed''\<rparr>
      else if now - lastTime meta > AUTH_THROTTLE_INTERVAL
        then \<lparr>shouldAuth = True, reason = ''time_elapsed''\<rparr>
      else if failureCount meta > 0 \<and> now - lastAttempt meta > 30000
        then \<lparr>shouldAuth = True, reason = ''retry_after_failure''\<rparr>
      else \<lparr>shouldAuth = False, reason = ''throttled''\<rparr>)"

section \<open>State of the background script and its environment\<close>

text \<open>
  What the script keeps under a key of \<^verbatim>\<open>chrome.storage.local\<close>: the token (a
  string), the metadata object, or the object \<^verbatim>\<open>{ category, timestamp }\<close> that
  \<^verbatim>\<open>checkHealth\<close> saves. A category object is the list of its entries (name, badge,
  colour).
\<close>

type_synonym categories = "(string \<times> string \<times> string) list"

record health_cache =
  hc_category :: categories
  timestamp :: int

datatype stored = StoredToken string | StoredMeta auth_meta | StoredHealth health_cache

text \<open>
  The JSON of \<^verbatim>\<open>/health\<close>, with the fields the script reads, and an object of
  cookie values: its keys in insertion order, each key once.
\<close>

record health =
  h_status :: "string option"
  h_category :: "categories option"
  h_error :: "string option"

type_synonym cookies = "(string \<times> string) list"

datatype cached = CachedHealth health | CachedCookies cookies

text \<open>
  The JSON that \<^verbatim>\<open>/set_http_data\<close> answers with: an object, of which the script
  reads \<^verbatim>\<open>token\<close>, or anything else (\<^verbatim>\<open>null\<close>, a number, a string). Other
  JSON bodies are opaque text.
\<close>

datatype auth_json = NotAnObject | ResponseObject "string option"

type_synonym json = string

text \<open>
  An element of the \<^verbatim>\<open>users\<close> array of a message: an object, of which the script
  reads \<^verbatim>\<open>user_id\<close> (\<open>None\<close> when the object has none or a falsy one, else its
  conversion to a string), or a primitive, given by its conversion to a string, or
  \<^verbatim>\<open>null\<close>.
\<close>

datatype user = UserObject "string option" | UserId string | UserNull

text \<open>The requests that \<^verbatim>\<open>ApiClient.makeRequest\<close> sends, by endpoint and body.\<close>

datatype request =
    Req_health
  | Req_set_http_data cookies "string option"
  | Req_set_user_status "string option" "string option" "string option"
  | Req_users_card_status "string option" "string option" "user list"
  | Req_get_cards_by_category "string option" "string option" "string option" int

text \<open>The object that \<^verbatim>\<open>_executeAuth\<close> returns (lines 390 to 394, 405 to 409).\<close>

record auth_result =
  success :: bool
  token :: "string option"
  error :: "string option"
  duration :: int

text \<open>
  The state: \<^verbatim>\<open>Cache.data\<close>, \<^verbatim>\<open>StorageManager.cache\<close> (which can hold
  \<^verbatim>\<open>null\<close> for a key), \<^verbatim>\<open>chrome.storage.local\<close>,
  \<^verbatim>\<open>AuthManager.pendingAuthRequest\<close>, the Map \<^verbatim>\<open>PendingUserStatusRequests\<close>, and
  the requests sent so far. A promise held in the state is given by what it settles
  with: a rejection (\<open>Inl\<close>, the error's message) or a value.
\<close>

record bg =
  Cache_data :: "cached cache"
  StorageManager_cache :: "string \<rightharpoonup> stored option"
  storage_local :: "string \<rightharpoonup> stored"
  pendingAuthRequest :: "auth_result option"
  PendingUserStatusRequests :: "string \<rightharpoonup> (string + json)"
  requests :: "request list"

text \<open>
  What one run of a handler receives from outside. \<open>clock env n\<close> is the value of the
  \<^verbatim>\<open>Date.now()\<close> that the run evaluates for the source line \<open>n\<close> of the
  background script (for \<^verbatim>\<open>Cache.get\<close> and \<^verbatim>\<open>Cache.set\<close>, the line of their
  call). The outcome of a request is the message of the error that \<^verbatim>\<open>makeRequest\<close>
  throws, or the JSON it returns. \<open>cookie_get env name\<close> is the value of the cookie that
  \<^verbatim>\<open>chrome.cookies.get\<close> finds, \<open>cookie_getAll env\<close> the names and values that
  \<^verbatim>\<open>chrome.cookies.getAll\<close> lists.
\<close>

record env =
  clock :: "nat \<Rightarrow> int"
  health_response :: "string + health"
  cookie_get :: "string \<Rightarrow> string option"
  cookie_getAll :: "(string \<times> string) list"
  auth_response :: "string + auth_json"
  api_response :: "string + json"

section \<open>StorageManager\<close>

text \<open>
  \<^verbatim>\<open>data[key] || null\<close> (line 65): a stored value that is falsy, the empty
  string, reads as \<^verbatim>\<open>null\<close>.
\<close>

definition or_null :: "stored option \<Rightarrow> stored option" where
  "or_null v = (case v of Some (StoredToken []) \<Rightarrow> None | _ \<Rightarrow> v)"

definition StorageManager_get :: "string \<Rightarrow> bg \<Rightarrow> stored option \<times> bg" where
  "StorageManager_get key s =
     (case StorageManager_cache s key of
        Some v \<Rightarrow> (v, s)
      | None \<Rightarrow>
          (let v = or_null (storage_local s key)
           in (v, s\<lparr>StorageManager_cache := (StorageManager_cache s)(key \<mapsto> v)\<rparr>)))"

definition StorageManager_remove :: "string \<Rightarrow> bg \<Rightarrow> bg" where
  "StorageManager_remove key s =
     s\<lparr>StorageManager_cache := (StorageManager_cache s)(key := None),
       storage_local := (storage_local s)(key := None)\<rparr>"

definition StorageManager_set :: "string \<Rightarrow> stored \<Rightarrow> bg \<Rightarrow> bg" where
  "StorageManager_set key v s =
     s\<lparr>StorageManager_cache := (StorageManager_cache s)(key \<mapsto> Some v),
       storage_local := (storage_local s)(key \<mapsto> v)\<rparr>"

definition StorageManager_invalidate :: "string \<Rightarrow> bg \<Rightarrow> bg" where
  "StorageManager_invalidate key s =
     s\<lparr>StorageManager_cache := (StorageManager_cache s)(key := None)\<rparr>"

definition StorageManager_clearCache :: "bg \<Rightarrow> bg" where
  "StorageManager_clearCache s = s\<lparr>StorageManager_cache := Map.empty\<rparr>"

section \<open>ApiClient\<close>

text \<open>
  \<^verbatim>\<open>makeRequest\<close> sends the request and returns what the environment answers, or
  throws; the model records the request and hands the outcome on. For \<^verbatim>\<open>/health\<close>
  the outcome \<open>Inl\<close> is the message of any error thrown in the \<^verbatim>\<open>try\<close> block of
  \<^verbatim>\<open>checkHealth\<close>, also the TypeError on a body that is \<^verbatim>\<open>null\<close>.
\<close>

definition makeRequest :: "request \<Rightarrow> (string + 'r) \<Rightarrow> bg \<Rightarrow> (string + 'r) \<times> bg" where
  "makeRequest req outcome s = (outcome, s\<lparr>requests := requests s @ [req]\<rparr>)"

text \<open>
  \<^verbatim>\<open>checkHealth\<close> (lines 134 to 166). An object from the cache is truthy. The
  only writer of the cache key \<^verbatim>\<open>health_check\<close> is this function, so the entry is
  a health object; an entry of the other kind is read as no entry.
\<close>

definition checkHealth :: "env \<Rightarrow> bg \<Rightarrow> health \<times> bg" where
  "checkHealth e s =
     (case Cache_get (clock e 136) ''health_check'' (Cache_data s) of
        (Some (CachedHealth cached), c) \<Rightarrow> (cached, s\<lparr>Cache_data := c\<rparr>)
      | (_, c) \<Rightarrow>
          (case makeRequest Req_health (health_response e) (s\<lparr>Cache_data := c\<rparr>) of
             (Inr data, s1) \<Rightarrow>
               (let s2 = s1\<lparr>Cache_data :=
                            Cache_set (clock e 150) ''health_check'' (CachedHealth data)
                              (Some 60000) (Cache_data s1)\<rparr>
                in (data,
                    case h_category data of
                      Some cat \<Rightarrow>
                        StorageManager_set HEALTH_CACHE
                          (StoredHealth \<lparr>hc_category = cat, timestamp = clock e 156\<rparr>) s2
                    | None \<Rightarrow> s2))
           | (Inl message, s1) \<Rightarrow>
               (let errorResponse =
                      \<lparr>h_status = Some ''unhealthy'', h_category = None,
                       h_error = Some message\<rparr>
                in (errorResponse,
                    s1\<lparr>Cache_data :=
                         Cache_set (clock e 163) ''health_check''
                           (CachedHealth errorResponse) (Some 30000) (Cache_data s1)\<rparr>))))"

definition sendAuthData ::
  "cookies \<Rightarrow> string option \<Rightarrow> env \<Rightarrow> bg \<Rightarrow> (string + auth_json) \<times> bg" where
  "sendAuthData cookieData csrfToken e s =
     makeRequest (Req_set_http_data cookieData csrfToken) (auth_response e) s"

section \<open>CookieManager\<close>

text \<open>\<^verbatim>\<open>obj[name] = value\<close> on an object given as the list of its entries.\<close>

fun assign :: "string \<Rightarrow> string \<Rightarrow> cookies \<Rightarrow> cookies" where
  "assign k v [] = [(k, v)]"
| "assign k v ((k', v') # kvs) =
     (if k = k' then (k, v) # kvs else (k', v') # assign k v kvs)"

definition startsWith :: "string \<Rightarrow> string \<Rightarrow> bool" where
  "startsWith s p = (take (length p) s = p)"

text \<open>
  \<^verbatim>\<open>getRequiredCookies\<close> (lines 183 to 212) and \<^verbatim>\<open>getRememberWebCookies\<close>
  (lines 214 to 243). A cached object is truthy, also the empty one. A cookie counts when
  \<^verbatim>\<open>cookie?.value\<close> is truthy. The callbacks of \<^verbatim>\<open>chrome.cookies\<close> are taken in
  the order of \<^verbatim>\<open>REQUIRED_COOKIES\<close>; nothing in the \<^verbatim>\<open>try\<close> block of
  \<^verbatim>\<open>getRememberWebCookies\<close> throws on a list of cookies. Under
  \<^verbatim>\<open>Promise.all\<close> (line 246) the two functions use different cache keys, so they
  are run one after the other.
\<close>

definition getRequiredCookies :: "env \<Rightarrow> bg \<Rightarrow> cookies \<times> bg" where
  "getRequiredCookies e s =
     (case Cache_get (clock e 185) ''required_cookies'' (Cache_data s) of
        (Some (CachedCookies cached), c) \<Rightarrow> (cached, s\<lparr>Cache_data := c\<rparr>)
      | (_, c) \<Rightarrow>
          (let result =
                 fold (\<lambda>name result.
                         case cookie_get e name of
                           Some v \<Rightarrow> if v \<noteq> [] then assign name v result else result
                         | None \<Rightarrow> result)
                   REQUIRED_COOKIES []
           in (result,
               s\<lparr>Cache_data :=
                   Cache_set (clock e 208) ''required_cookies'' (CachedCookies result)
                     (Some 30000) c\<rparr>)))"

definition getRememberWebCookies :: "env \<Rightarrow> bg \<Rightarrow> cookies \<times> bg" where
  "getRememberWebCookies e s =
     (case Cache_get (clock e 216) ''remember_cookies'' (Cache_data s) of
        (Some (CachedCookies cached), c) \<Rightarrow> (cached, s\<lparr>Cache_data := c\<rparr>)
      | (_, c) \<Rightarrow>
          (let allCookies = cookie_getAll e;
               result =
                 fold (\<lambda>(name, v) acc. assign name v acc)
                   (filter (\<lambda>(name, v). startsWith name REMEMBER_WEB_PREFIX) allCookies) []
           in (result,
               s\<lparr>Cache_data :=
                   Cache_set (clock e 235) ''remember_cookies'' (CachedCookies result)
                     (Some 30000) c\<rparr>)))"

text \<open>\<^verbatim>\<open>{ ...required, ...remember }\<close>: the entries of the first, then those of the second assigned.\<close>

definition getAllRelevantCookies :: "env \<Rightarrow> bg \<Rightarrow> cookies \<times> bg" where
  "getAllRelevantCookies e s =
     (case getRequiredCookies e s of
        (required, s1) \<Rightarrow>
          (case getRememberWebCookies e s1 of
             (remember, s2) \<Rightarrow>
               (fold (\<lambda>(name, v) acc. assign name v acc) remember required, s2)))"

section \<open>AuthManager\<close>

definition authMeta_default :: auth_meta where
  "authMeta_default =
     \<lparr>lastTime = 0, lastUser = None, lastCsrf = None, lastAttempt = 0, failureCount = 0\<rparr>"

text \<open>
  \<^verbatim>\<open>getAuthMeta\<close> (lines 261 to 270): \<^verbatim>\<open>meta || { ... }\<close>. A stored object is
  truthy. The only writer of the key is \<^verbatim>\<open>setAuthMeta\<close>, so the value under it is a
  metadata object; a value of another kind is read as \<^verbatim>\<open>null\<close>. The same holds for
  the token key in \<^verbatim>\<open>getToken\<close>.
\<close>

definition getAuthMeta :: "bg \<Rightarrow> auth_meta \<times> bg" where
  "getAuthMeta s =
     (case StorageManager_get AUTH_META s of
        (Some (StoredMeta meta), s1) \<Rightarrow> (meta, s1)
      | (_, s1) \<Rightarrow> (authMeta_default, s1))"

definition setAuthMeta :: "auth_meta \<Rightarrow> bg \<Rightarrow> bg" where
  "setAuthMeta meta s = StorageManager_set AUTH_META (StoredMeta meta) s"

definition getToken :: "bg \<Rightarrow> string option \<times> bg" where
  "getToken s =
     (case StorageManager_get TOKEN s of
        (Some (StoredToken t), s1) \<Rightarrow> (Some t, s1)
      | (_, s1) \<Rightarrow> (None, s1))"

definition setToken :: "string option \<Rightarrow> bg \<Rightarrow> bg" where
  "setToken tok s =
     (case tok of
        Some t \<Rightarrow> if t \<noteq> [] then StorageManager_set TOKEN (StoredToken t) s else s
      | None \<Rightarrow> s)"

text \<open>
  \<^verbatim>\<open>_executeAuth\<close> (lines 345 to 411). Every \<^verbatim>\<open>throw\<close> of the \<^verbatim>\<open>try\<close>
  block, and every error that \<^verbatim>\<open>sendAuthData\<close> throws, continues in the
  \<^verbatim>\<open>catch\<close> block, which is \<open>executeAuth_catch\<close>: it changes two fields of the
  metadata object read at line 347 and saves it. \<open>executeAuth_success\<close> is the end
  of the \<^verbatim>\<open>try\<close> block, lines 371 to 394, which runs once the response has passed
  the test of line 367.
\<close>

definition executeAuth_catch ::
  "env \<Rightarrow> int \<Rightarrow> auth_meta \<Rightarrow> string \<Rightarrow> bg \<Rightarrow> auth_result \<times> bg" where
  "executeAuth_catch e startTime authMeta message s =
     (let authMeta1 = authMeta\<lparr>lastAttempt := startTime\<rparr>;
          authMeta2 = authMeta1\<lparr>failureCount := failureCount authMeta1 + 1\<rparr>;
          s1 = setAuthMeta authMeta2 s
      in (\<lparr>success = False, token = None, error = Some message,
           duration = clock e 408 - startTime\<rparr>, s1))"

definition executeAuth_success ::
  "env \<Rightarrow> int \<Rightarrow> string option \<Rightarrow> string option \<Rightarrow> string option \<Rightarrow> bg
     \<Rightarrow> auth_result \<times> bg" where
  "executeAuth_success e startTime currentUser csrfToken tok s3 =
     (let s4 = (if truthy tok then setToken tok s3 else s3);
          authMeta' =
            \<lparr>lastTime = clock e 379, lastUser = currentUser, lastCsrf = csrfToken,
             lastAttempt = startTime, failureCount = 0\<rparr>;
          s5 = setAuthMeta authMeta' s4
      in (\<lparr>success = True, token = tok, error = None,
           duration = clock e 393 - startTime\<rparr>, s5))"

definition executeAuth ::
  "env \<Rightarrow> string option \<Rightarrow> string option \<Rightarrow> bg \<Rightarrow> auth_result \<times> bg" where
  "executeAuth e currentUser csrfToken s =
     (let startTime = clock e 346 in
      case getAuthMeta s of
        (authMeta, s0) \<Rightarrow>
          (case checkHealth e s0 of
             (healthCheck, s1) \<Rightarrow>
               if h_status healthCheck \<noteq> Some ''healthy'' then
                 executeAuth_catch e startTime authMeta
                   (''API unhealthy: '' @
                      (case h_error healthCheck of
                         Some m \<Rightarrow> if m \<noteq> [] then m else ''Unknown error''
                       | None \<Rightarrow> ''Unknown error'')) s1
               else
                 (case getAllRelevantCookies e s1 of
                    (cookies, s2) \<Rightarrow>
                      if length cookies = 0 then
                        executeAuth_catch e startTime authMeta ''No cookies found'' s2
                      else
                        (case sendAuthData cookies csrfToken e s2 of
                           (Inl message, s3) \<Rightarrow>
                             executeAuth_catch e startTime authMeta message s3
                         | (Inr NotAnObject, s3) \<Rightarrow>
                             executeAuth_catch e startTime authMeta
                               ''Invalid API response'' s3
                         | (Inr (ResponseObject tok), s3) \<Rightarrow>
                             executeAuth_success e startTime currentUser csrfToken tok
                               s3))))"

text \<open>
  The data of a message, with the fields that the handlers read; a field the object does
  not have is \<open>None\<close>, and so is a \<^verbatim>\<open>users\<close> that is not an array.
\<close>

record msg_data =
  d_currentUser :: "string option"
  d_csrfToken :: "string option"
  d_user_id :: "string option"
  d_category :: "string option"
  d_token :: "string option"
  d_card_id :: "string option"
  d_users :: "user list option"
  d_page :: "int option"

record message =
  msg_type :: string
  msg_data :: "msg_data option"

text \<open>
  The message of the TypeError that destructuring \<^verbatim>\<open>undefined\<close> throws, by the
  first property of the pattern and the text of the expression: for line 416 it is
  \<^verbatim>\<open>Cannot destructure property 'currentUser' of 'authData' as it is undefined.\<close>
\<close>

definition destructure_error :: "string \<Rightarrow> string \<Rightarrow> string" where
  "destructure_error property source =
     ''Cannot destructure property '' @ [CHR 0x27] @ property @ [CHR 0x27] @ '' of '' @
     [CHR 0x27] @ source @ [CHR 0x27] @ '' as it is undefined.''"

text \<open>
  \<^verbatim>\<open>performAuthentication\<close> (lines 326 to 343) within one run of a handler, from
  the message to the response, with no step of another run in between. A promise that is
  pending when the run starts is returned as it is, and the run gets what that promise
  settles with. Otherwise \<^verbatim>\<open>_executeAuth\<close> runs; the guard holds its promise
  meanwhile, which \<^verbatim>\<open>_executeAuth\<close> does not read, and the \<^verbatim>\<open>finally\<close> block
  sets the guard to \<^verbatim>\<open>null\<close>. How calls interleave is the subject of the machine
  \<open>auth_step\<close> below.
\<close>

definition performAuthentication :: "env \<Rightarrow> msg_data \<Rightarrow> bg \<Rightarrow> auth_result \<times> bg" where
  "performAuthentication e authData s =
     (case pendingAuthRequest s of
        Some pending \<Rightarrow> (pending, s)
      | None \<Rightarrow>
          (case executeAuth e (d_currentUser authData) (d_csrfToken authData) s of
             (result, s1) \<Rightarrow> (result, s1\<lparr>pendingAuthRequest := None\<rparr>)))"

text \<open>
  A run of an async function is suspended at each \<^verbatim>\<open>await\<close>, and other runs go on
  meanwhile. \<open>other n\<close> is what the other runs do to the state between the end of
  the call that the \<^verbatim>\<open>await\<close> of source line \<open>n\<close> waits for and the resumption
  of the run. \<open>alone\<close> is the case where nothing else runs.
\<close>

type_synonym interleaving = "nat \<Rightarrow> bg \<Rightarrow> bg"

definition alone :: interleaving where
  "alone n s = s"

text \<open>
  The object that \<^verbatim>\<open>handleAuthRequest\<close> returns (lines 414 to 463). The function
  is suspended at lines 426 and 427 before it decides at line 429; from line 447 on it
  is taken as one step.
\<close>

record handle_result =
  hr_success :: bool
  hr_error :: "string option"
  hr_shouldAuth :: bool
  hr_reason :: "string option"
  hr_token :: "string option"
  hr_duration :: "int option"

definition handleAuthRequest ::
  "interleaving \<Rightarrow> env \<Rightarrow> msg_data option \<Rightarrow> bg \<Rightarrow> handle_result \<times> bg" where
  "handleAuthRequest other e authData s =
     (case authData of
        None \<Rightarrow>
          (\<lparr>hr_success = False,
            hr_error = Some (destructure_error ''currentUser'' ''authData''),
            hr_shouldAuth = False,
            hr_reason = None, hr_token = None, hr_duration = None\<rparr>, s)
      | Some d \<Rightarrow>
          if \<not> truthy (d_currentUser d) \<or> \<not> truthy (d_csrfToken d) then
            (\<lparr>hr_success = False, hr_error = Some ''Missing required auth data'',
              hr_shouldAuth = False, hr_reason = None, hr_token = None,
              hr_duration = None\<rparr>, s)
          else
            (case getToken s of
               (tok, s1) \<Rightarrow>
                 (case getAuthMeta (other 426 s1) of
                    (meta, s2) \<Rightarrow>
                      (let dec = shouldPerformAuth (clock e 288) tok meta
                                   (d_currentUser d) (d_csrfToken d)
                       in if \<not> shouldAuth dec then
                            (\<lparr>hr_success = True, hr_error = None, hr_shouldAuth = False,
                              hr_reason = Some (reason dec), hr_token = tok,
                              hr_duration = None\<rparr>, other 427 s2)
                          else
                            (case performAuthentication e d (other 427 s2) of
                               (result, s3) \<Rightarrow>
                                 (\<lparr>hr_success = success result, hr_error = error result,
                                   hr_shouldAuth = True, hr_reason = Some (reason dec),
                                   hr_token = token result,
                                   hr_duration = Some (duration result)\<rparr>, s3))))))"

record auth_status =
  hasToken :: bool
  lastAuthTime :: int
  as_lastUser :: "string option"
  as_failureCount :: int
  isHealthy :: bool

definition getAuthStatus :: "env \<Rightarrow> bg \<Rightarrow> auth_status \<times> bg" where
  "getAuthStatus e s =
     (case getToken s of
        (tok, s1) \<Rightarrow>
          (case getAuthMeta s1 of
             (meta, s2) \<Rightarrow>
               (case checkHealth e s2 of
                  (healthCheck, s3) \<Rightarrow>
                    (\<lparr>hasToken = truthy tok, lastAuthTime = lastTime meta,
                      as_lastUser = lastUser meta, as_failureCount = failureCount meta,
                      isHealthy = (h_status healthCheck = Some ''healthy'')\<rparr>, s3))))"

text \<open>
  \<^verbatim>\<open>forceReauth\<close> (lines 480 to 497). It is suspended at line 484, where it awaits
  the write of the zero record, and then clears the caches and calls
  \<^verbatim>\<open>handleAuthRequest\<close>, which is suspended in its turn.
\<close>

definition forceReauth ::
  "interleaving \<Rightarrow> env \<Rightarrow> msg_data option \<Rightarrow> bg \<Rightarrow> handle_result \<times> bg" where
  "forceReauth other e authData s =
     (let s1 = setAuthMeta
                 \<lparr>lastTime = 0, lastUser = None, lastCsrf = None, lastAttempt = 0,
                  failureCount = 0\<rparr> s;
          s2 = other 484 s1;
          s3 = s2\<lparr>Cache_data := Cache_clear (Cache_data s2)\<rparr>;
          s4 = StorageManager_invalidate TOKEN s3
      in handleAuthRequest other e authData s4)"

section \<open>Message handlers\<close>

text \<open>
  What a handler passes to \<^verbatim>\<open>sendResponse\<close>: the object of
  \<^verbatim>\<open>handleAuthRequest\<close>, \<^verbatim>\<open>{ success: false, error }\<close>,
  \<^verbatim>\<open>{ success: true, status }\<close>, \<^verbatim>\<open>{ success: true }\<close>, \<^verbatim>\<open>{ token }\<close>,
  \<^verbatim>\<open>{ success: true, data }\<close>, an object of cookies, \<^verbatim>\<open>{ healthy, data }\<close>, an
  object of categories, or \<^verbatim>\<open>{ error: "Unknown message type" }\<close>.
\<close>

datatype response =
    Resp_auth handle_result
  | Resp_failure string
  | Resp_status auth_status
  | Resp_success
  | Resp_token "string option"
  | Resp_data json
  | Resp_cookies cookies
  | Resp_health bool health
  | Resp_category categories
  | Resp_unknown_type

text \<open>
  One run of a handler: the responses it sent, in order, and the message of the error its
  promise rejects with, if it rejects. The handlers of the table are taken run by run,
  each \<open>alone\<close>.
\<close>

record handler_run =
  sent :: "response list"
  rejected :: "string option"

type_synonym handler = "env \<Rightarrow> message \<Rightarrow> bg \<Rightarrow> handler_run \<times> bg"

definition resolved :: "response list \<Rightarrow> handler_run" where
  "resolved rs = \<lparr>sent = rs, rejected = None\<rparr>"

definition HANDLE_AUTH :: handler where
  "HANDLE_AUTH e msg s =
     (case handleAuthRequest alone e (msg_data msg) s of
        (result, s1) \<Rightarrow> (resolved [Resp_auth result], s1))"

definition GET_AUTH_STATUS :: handler where
  "GET_AUTH_STATUS e msg s =
     (case getAuthStatus e s of
        (status, s1) \<Rightarrow> (resolved [Resp_status status], s1))"

definition FORCE_REAUTH :: handler where
  "FORCE_REAUTH e msg s =
     (case forceReauth alone e (msg_data msg) s of
        (result, s1) \<Rightarrow> (resolved [Resp_auth result], s1))"

definition CLEAR_TOKEN :: handler where
  "CLEAR_TOKEN e msg s = (resolved [Resp_success], StorageManager_remove TOKEN s)"

definition GET_TOKEN :: handler where
  "GET_TOKEN e msg s =
     (case getToken s of (tok, s1) \<Rightarrow> (resolved [Resp_token tok], s1))"

definition SET_USER_STATUS :: handler where
  "SET_USER_STATUS e msg s =
     (case msg_data msg of
        None \<Rightarrow> (resolved [Resp_failure (destructure_error ''user_id'' ''msg.data'')], s)
      | Some d \<Rightarrow>
          if \<not> truthy (d_user_id d) \<or> \<not> truthy (d_category d) then
            (resolved [Resp_failure ''Missing required parameters''], s)
          else
            (case getToken s of
               (tok, s1) \<Rightarrow>
                 if \<not> truthy tok then
                   (resolved [Resp_failure ''No authentication token available''], s1)
                 else
                   (case makeRequest (Req_set_user_status tok (d_user_id d) (d_category d))
                           (api_response e) s1 of
                      (Inr response, s2) \<Rightarrow> (resolved [Resp_data response], s2)
                    | (Inl m, s2) \<Rightarrow> (resolved [Resp_failure m], s2))))"

definition GET_COOKIES :: handler where
  "GET_COOKIES e msg s =
     (case getAllRelevantCookies e s of
        (cookies, s1) \<Rightarrow> (resolved [Resp_cookies cookies], s1))"

definition CHECK_HEALTH :: handler where
  "CHECK_HEALTH e msg s =
     (case checkHealth e s of
        (data, s1) \<Rightarrow>
          (resolved [Resp_health (h_status data = Some ''healthy'') data], s1))"

definition GET_HEALTH_CATEGORY :: handler where
  "GET_HEALTH_CATEGORY e msg s =
     (let fresh = (\<lambda>s1.
            case checkHealth e s1 of
              (data, s2) \<Rightarrow>
                (resolved [Resp_category
                             (case h_category data of Some cat \<Rightarrow> cat | None \<Rightarrow> [])], s2))
      in case StorageManager_get HEALTH_CACHE s of
           (Some (StoredHealth cached), s1) \<Rightarrow>
             if clock e 617 - timestamp cached < CACHE_DURATION then
               (resolved [Resp_category (hc_category cached)], s1)
             else fresh s1
         | (_, s1) \<Rightarrow> fresh s1)"

text \<open>
  The key of \<^verbatim>\<open>FETCH_USERS_CARD_STATUS\<close> (line 639), which is also
  \<^verbatim>\<open>ApiClient._makeCacheKey\<close> of the content script (lines 132 to 135):
  \<^verbatim>\<open>users.map(u => u.user_id || u).sort().join(',')\<close>. Reading
  \<^verbatim>\<open>user_id\<close> of \<^verbatim>\<open>null\<close> throws a TypeError, so there is no key
  (\<open>None\<close>) when an element is \<^verbatim>\<open>null\<close>. The default \<^verbatim>\<open>sort\<close> compares
  the elements converted to strings, by their code units, and \<^verbatim>\<open>join\<close> converts
  them to strings, so the result is the sorted list of the strings, joined. An object
  whose \<^verbatim>\<open>user_id\<close> is falsy stands for itself and converts to
  \<^verbatim>\<open>[object Object]\<close>.
\<close>

definition user_key :: "user \<Rightarrow> string" where
  "user_key u =
     (case u of
        UserObject uid \<Rightarrow>
          (case uid of
             Some i \<Rightarrow> if i \<noteq> [] then i else ''[object Object]''
           | None \<Rightarrow> ''[object Object]'')
      | UserId i \<Rightarrow> i
      | UserNull \<Rightarrow> [])"

definition null_property_error :: string where
  "null_property_error = ''Cannot read properties of null (reading 'user_id')''"

fun join :: "string \<Rightarrow> string list \<Rightarrow> string" where
  "join sep [] = []"
| "join sep [x] = x"
| "join sep (x # y # ys) = x @ sep @ join sep (y # ys)"

definition makeCacheKey :: "string \<Rightarrow> user list \<Rightarrow> string option" where
  "makeCacheKey cardId users =
     (if UserNull \<in> set users then None
      else
        (let ids = join '','' (sort (map user_key users))
         in Some (cardId @ '':'' @ ids)))"

text \<open>
  \<^verbatim>\<open>FETCH_USERS_CARD_STATUS\<close> (lines 631 to 677) in two parts. The first runs when
  the message arrives, up to line 671: it answers at once when the input is invalid,
  waits for the pending promise of the same key when there is one, or sends the request
  and stores its promise under the key. The second runs when the promise of a request
  that this handler sent settles: it deletes the key and answers.
\<close>

datatype fetch_begin =
    Answered response
  | Waiting "string + json"
  | Started string "string + json"

definition FETCH_USERS_CARD_STATUS_begin :: "env \<Rightarrow> message \<Rightarrow> bg \<Rightarrow> fetch_begin \<times> bg" where
  "FETCH_USERS_CARD_STATUS_begin e msg s =
     (case msg_data msg of
        None \<Rightarrow> (Answered (Resp_failure (destructure_error ''token'' ''msg.data'')), s)
      | Some d \<Rightarrow>
          (case d_users d of
             None \<Rightarrow> (Answered (Resp_failure ''Invalid input parameters''), s)
           | Some users \<Rightarrow>
               if \<not> truthy (d_token d) \<or> \<not> truthy (d_card_id d) \<or> length users = 0 then
                 (Answered (Resp_failure ''Invalid input parameters''), s)
               else
                 (case makeCacheKey (case d_card_id d of Some c \<Rightarrow> c | None \<Rightarrow> []) users of
                    None \<Rightarrow> (Answered (Resp_failure null_property_error), s)
                  | Some key \<Rightarrow>
                      (case PendingUserStatusRequests s key of
                         Some promise \<Rightarrow> (Waiting promise, s)
                       | None \<Rightarrow>
                           (case makeRequest
                                   (Req_users_card_status (d_token d) (d_card_id d) users)
                                   (api_response e) s of
                              (promise, s1) \<Rightarrow>
                                (Started key promise,
                                 s1\<lparr>PendingUserStatusRequests :=
                                      (PendingUserStatusRequests s1)(key \<mapsto> promise)\<rparr>))))))"

definition settled_response :: "string + json \<Rightarrow> response" where
  "settled_response promise =
     (case promise of Inr data \<Rightarrow> Resp_data data | Inl m \<Rightarrow> Resp_failure m)"

definition FETCH_USERS_CARD_STATUS_settle :: "string \<Rightarrow> string + json \<Rightarrow> bg \<Rightarrow> response \<times> bg" where
  "FETCH_USERS_CARD_STATUS_settle key promise s =
     (settled_response promise,
      s\<lparr>PendingUserStatusRequests := (PendingUserStatusRequests s)(key := None)\<rparr>)"

definition FETCH_USERS_CARD_STATUS :: handler where
  "FETCH_USERS_CARD_STATUS e msg s =
     (case FETCH_USERS_CARD_STATUS_begin e msg s of
        (Answered r, s1) \<Rightarrow> (resolved [r], s1)
      | (Waiting promise, s1) \<Rightarrow> (resolved [settled_response promise], s1)
      | (Started key promise, s1) \<Rightarrow>
          (case FETCH_USERS_CARD_STATUS_settle key promise s1 of
             (r, s2) \<Rightarrow> (resolved [r], s2)))"

definition FETCH_USERS_BY_CATEGORY :: handler where
  "FETCH_USERS_BY_CATEGORY e msg s =
     (case msg_data msg of
        None \<Rightarrow> (resolved [Resp_failure (destructure_error ''category'' ''msg.data'')], s)
      | Some d \<Rightarrow>
          if \<not> truthy (d_category d) \<or> \<not> truthy (d_card_id d) then
            (resolved [Resp_failure ''Missing required parameters''], s)
          else
            (case getToken s of
               (tok, s1) \<Rightarrow>
                 if \<not> truthy tok then
                   (resolved [Resp_failure ''No authentication token available''], s1)
                 else
                   (case makeRequest
                           (Req_get_cards_by_category tok (d_category d) (d_card_id d)
                              (case d_page d of Some n \<Rightarrow> n | None \<Rightarrow> 0))
                           (api_response e) s1 of
                      (Inr data, s2) \<Rightarrow> (resolved [Resp_data data], s2)
                    | (Inl m, s2) \<Rightarrow> (resolved [Resp_failure m], s2))))"

definition MessageHandlers :: "(string \<times> handler) list" where
  "MessageHandlers =
     [(''HANDLE_AUTH'', HANDLE_AUTH),
      (''GET_AUTH_STATUS'', GET_AUTH_STATUS),
      (''FORCE_REAUTH'', FORCE_REAUTH),
      (''CLEAR_TOKEN'', CLEAR_TOKEN),
      (''GET_TOKEN'', GET_TOKEN),
      (''SET_USER_STATUS'', SET_USER_STATUS),
      (''GET_COOKIES'', GET_COOKIES),
      (''CHECK_HEALTH'', CHECK_HEALTH),
      (''GET_HEALTH_CATEGORY'', GET_HEALTH_CATEGORY),
      (''FETCH_USERS_CARD_STATUS'', FETCH_USERS_CARD_STATUS),
      (''FETCH_USERS_BY_CATEGORY'', FETCH_USERS_BY_CATEGORY)]"

section \<open>The message listener\<close>

text \<open>
  \<^verbatim>\<open>MessageHandlers[message.type]\<close> (line 706) reads a property of an object
  literal: one of its own, or one that every object inherits from
  \<^verbatim>\<open>Object.prototype\<close>, or \<^verbatim>\<open>undefined\<close>. The inherited values are truthy.
  Called as \<^verbatim>\<open>handler(message, sender, sendResponse).catch(...)\<close>, each of them
  throws a TypeError: it is no function (\<^verbatim>\<open>__proto__\<close>), it throws on the receiver
  \<^verbatim>\<open>undefined\<close>, or it returns a value that has no method \<^verbatim>\<open>catch\<close>
  (\<^verbatim>\<open>constructor\<close> returns the message, \<^verbatim>\<open>toString\<close> a string).
\<close>

definition Object_prototype_properties :: "string list" where
  "Object_prototype_properties =
     [''constructor'', ''__defineGetter__'', ''__defineSetter__'', ''hasOwnProperty'',
      ''__lookupGetter__'', ''__lookupSetter__'', ''isPrototypeOf'',
      ''propertyIsEnumerable'', ''toString'', ''valueOf'', ''__proto__'',
      ''toLocaleString'']"

datatype 'h property = Own 'h | Inherited | Undefined

definition get_property :: "(string \<times> 'h) list \<Rightarrow> string \<Rightarrow> 'h property" where
  "get_property obj name =
     (case map_of obj name of
        Some h \<Rightarrow> Own h
      | None \<Rightarrow> if name \<in> set Object_prototype_properties then Inherited else Undefined)"

text \<open>
  The listener (lines 705 to 721) over a table of handlers: what it returns or throws,
  and the responses that reach the sender.
\<close>

datatype listener_result = Returned bool | Thrown string

definition listener ::
  "(string \<times> handler) list \<Rightarrow> env \<Rightarrow> message \<Rightarrow> bg \<Rightarrow> (listener_result \<times> response list) \<times> bg" where
  "listener handlers e msg s =
     (case get_property handlers (msg_type msg) of
        Undefined \<Rightarrow> ((Returned False, [Resp_unknown_type]), s)
      | Inherited \<Rightarrow> ((Thrown ''TypeError'', []), s)
      | Own handler \<Rightarrow>
          (case handler e msg s of
             (run, s1) \<Rightarrow>
               ((Returned True,
                 sent run @
                   (case rejected run of Some m \<Rightarrow> [Resp_failure m] | None \<Rightarrow> [])),
                s1)))"

definition onMessage ::
  "env \<Rightarrow> message \<Rightarrow> bg \<Rightarrow> (listener_result \<times> response list) \<times> bg" where
  "onMessage = listener MessageHandlers"

text \<open>
  The operations of the background script: a message, the start-up listener (lines 724
  to 728) and the periodic clean-up (lines 731 to 734).
\<close>

datatype operation = OnMessage message | OnStartup | Periodic

definition run_operation :: "env \<Rightarrow> operation \<Rightarrow> bg \<Rightarrow> bg" where
  "run_operation e op s =
     (case op of
        OnMessage msg \<Rightarrow> snd (onMessage e msg s)
      | OnStartup \<Rightarrow> StorageManager_clearCache (s\<lparr>Cache_data := Cache_clear (Cache_data s)\<rparr>)
      | Periodic \<Rightarrow> s\<lparr>Cache_data := Cache_clear (Cache_data s)\<rparr>)"

fun run_operations :: "(env \<times> operation) list \<Rightarrow> bg \<Rightarrow> bg" where
  "run_operations [] s = s"
| "run_operations ((e, op) # ops) s = run_operations ops (run_operation e op s)"

definition initial :: bg where
  "initial =
     \<lparr>Cache_data = Map.empty, StorageManager_cache = Map.empty, storage_local = Map.empty,
      pendingAuthRequest = None, PendingUserStatusRequests = Map.empty, requests = []\<rparr>"

section \<open>Interleaved calls of performAuthentication\<close>

text \<open>
  The handlers run on one event loop, and a call of \<^verbatim>\<open>performAuthentication\<close>
  (lines 326 to 343) is suspended at its \<^verbatim>\<open>await\<close> while other calls run. The
  machine below follows the guard through such interleavings. Promises of
  \<^verbatim>\<open>_executeAuth\<close> are numbered in the order of their creation. The state holds
  the guard \<^verbatim>\<open>AuthManager.pendingAuthRequest\<close>, the calls of \<^verbatim>\<open>_executeAuth\<close>
  that have not settled, the promises that have settled (with whether they were
  fulfilled), and the calls of \<^verbatim>\<open>performAuthentication\<close> suspended at line 338,
  each by the promise it awaits.
\<close>

record auth_state =
  pending_promise :: "nat option"
  running :: "nat list"
  settled :: "(nat \<times> bool) list"
  awaiting :: "nat list"
  created :: nat

text \<open>
  \<open>Call\<close> is a call of \<^verbatim>\<open>performAuthentication\<close> up to its first suspension:
  with the guard set it returns at line 332; otherwise it starts \<^verbatim>\<open>_executeAuth\<close>,
  stores the promise in the guard and awaits it. \<open>Settle p ok\<close> is the end of the
  \<^verbatim>\<open>_executeAuth\<close> with promise \<open>p\<close>. \<open>Resume p\<close> is the continuation of the call
  that awaits \<open>p\<close>, after \<open>p\<close> has settled: lines 339 to 341, where the
  \<^verbatim>\<open>finally\<close> block runs whether \<open>p\<close> was fulfilled or rejected. A step that
  cannot happen in the state is \<open>None\<close>.
\<close>

datatype auth_event = Call | Settle nat bool | Resume nat

fun auth_step :: "auth_event \<Rightarrow> auth_state \<Rightarrow> auth_state option" where
  "auth_step Call s =
     (case pending_promise s of
        Some p \<Rightarrow> Some s
      | None \<Rightarrow>
          Some (s\<lparr>pending_promise := Some (created s),
                  running := created s # running s,
                  awaiting := created s # awaiting s,
                  created := Suc (created s)\<rparr>))"
| "auth_step (Settle p ok) s =
     (if p \<in> set (running s)
      then Some (s\<lparr>running := removeAll p (running s), settled := (p, ok) # settled s\<rparr>)
      else None)"
| "auth_step (Resume p) s =
     (if p \<in> set (awaiting s) \<and> p \<in> set (map fst (settled s))
      then Some (s\<lparr>awaiting := removeAll p (awaiting s), pending_promise := None\<rparr>)
      else None)"

text \<open>The promise that a call of \<^verbatim>\<open>performAuthentication\<close> made in the state returns.\<close>

definition returned_promise :: "auth_state \<Rightarrow> nat" where
  "returned_promise s = (case pending_promise s of Some p \<Rightarrow> p | None \<Rightarrow> created s)"

definition auth_initial :: auth_state where
  "auth_initial =
     \<lparr>pending_promise = None, running = [], settled = [], awaiting = [], created = 0\<rparr>"

fun auth_run :: "auth_event list \<Rightarrow> auth_state \<Rightarrow> auth_state option" where
  "auth_run [] s = Some s"
| "auth_run (ev # evs) s =
     (case auth_step ev s of None \<Rightarrow> None | Some s1 \<Rightarrow> auth_run evs s1)"

inductive reachable :: "auth_state \<Rightarrow> bool" where
  reachable_initial: "reachable auth_initial"
| reachable_step: "reachable s \<Longrightarrow> auth_step ev s = Some s1 \<Longrightarrow> reachable s1"

section \<open>Notions used in the statements\<close>

text \<open>
  The health object and the cookies that a run of \<^verbatim>\<open>_executeAuth\<close> started in a
  state obtains at lines 353 and 359.
\<close>

definition healthOf :: "env \<Rightarrow> bg \<Rightarrow> health" where
  "healthOf e s = fst (checkHealth e (snd (getAuthMeta s)))"

definition collectedCookies :: "env \<Rightarrow> bg \<Rightarrow> cookies" where
  "collectedCookies e s =
     fst (getAllRelevantCookies e (snd (checkHealth e (snd (getAuthMeta s)))))"

text \<open>
  A value fits a storage key when it is a token under the token key, a metadata object
  under the metadata key, or a health record under the health key. A state is
  \<open>kinded\<close> when every value of \<^verbatim>\<open>chrome.storage.local\<close> and of
  \<^verbatim>\<open>StorageManager.cache\<close> fits its key.
\<close>

definition kind_ok :: "string \<Rightarrow> stored \<Rightarrow> bool" where
  "kind_ok key v =
     (case v of
        StoredToken t \<Rightarrow> key = TOKEN
      | StoredMeta m \<Rightarrow> key = AUTH_META
      | StoredHealth h \<Rightarrow> key = HEALTH_CACHE)"

definition kinded :: "bg \<Rightarrow> bool" where
  "kinded s =
     (\<forall>key v. (storage_local s key = Some v \<or> StorageManager_cache s key = Some (Some v))
        \<longrightarrow> kind_ok key v)"

text \<open>
  An entry that a run sets in \<^verbatim>\<open>Cache\<close>, by its key and its expiry: the health
  object, 60 seconds after the time read by the \<^verbatim>\<open>Cache.set\<close> of line 150, or 30
  seconds after that of line 163; the required cookies, 30 seconds after that of line
  208; the \<^verbatim>\<open>remember_web\<close> cookies, 30 seconds after that of line 235. The
  entries of the cache \<open>c\<close> that the cache \<open>c0\<close> did not hold are \<open>short_lived\<close>
  when each of them is such an entry.
\<close>

definition fresh_entry :: "env \<Rightarrow> string \<Rightarrow> int \<Rightarrow> bool" where
  "fresh_entry e key x =
     ((key = ''health_check'' \<and> (x = clock e 150 + 60000 \<or> x = clock e 163 + 30000))
      \<or> (key = ''required_cookies'' \<and> x = clock e 208 + 30000)
      \<or> (key = ''remember_cookies'' \<and> x = clock e 235 + 30000))"

definition short_lived :: "env \<Rightarrow> cached cache \<Rightarrow> cached cache \<Rightarrow> bool" where
  "short_lived e c0 c =
     (\<forall>key item. c key = Some item \<longrightarrow>
        c0 key = Some item \<or> fresh_entry e key (expiry item))"

text \<open>The invariant of the machine of interleaved calls.\<close>

definition auth_inv :: "auth_state \<Rightarrow> bool" where
  "auth_inv s =
     ((\<forall>p \<in> set (map fst (settled s)). p < created s) \<and>
      (case pending_promise s of
         None \<Rightarrow> running s = [] \<and> awaiting s = []
       | Some p \<Rightarrow>
           p < created s \<and> awaiting s = [p] \<and>
           (if p \<in> set (map fst (settled s)) then running s = [] else running s = [p])))"

text \<open>
  Environments for the examples: a healthy API that reports categories and no cookies at
  all; a healthy API and no cookie of the site that the script looks for; a healthy API,
  one required cookie and one \<^verbatim>\<open>remember_web\<close> cookie.
\<close>

definition healthy_env :: env where
  "healthy_env =
     \<lparr>clock = (\<lambda>n. 1000),
      health_response =
        Inr \<lparr>h_status = Some ''healthy'', h_category = Some [], h_error = None\<rparr>,
      cookie_get = (\<lambda>n. None), cookie_getAll = [],
      auth_response = Inr NotAnObject, api_response = Inr []\<rparr>"

definition no_cookie_env :: env where
  "no_cookie_env =
     \<lparr>clock = (\<lambda>n. 1000 + int n),
      health_response =
        Inr \<lparr>h_status = Some ''healthy'', h_category = None, h_error = None\<rparr>,
      cookie_get = (\<lambda>n. None), cookie_getAll = [(''other'', ''1'')],
      auth_response = Inr (ResponseObject (Some ''tok'')), api_response = Inr []\<rparr>"

definition cookie_env :: env where
  "cookie_env =
     \<lparr>clock = (\<lambda>n. 1000 + int n),
      health_response =
        Inr \<lparr>h_status = Some ''healthy'', h_category = None, h_error = None\<rparr>,
      cookie_get = (\<lambda>n. if n = ''theme'' then Some ''dark'' else None),
      cookie_getAll = [(''theme'', ''dark''), (''remember_web_1'', ''r'')],
      auth_response = Inr (ResponseObject (Some ''tok'')), api_response = Inr []\<rparr>"

text \<open>
  An interleaving for the examples: an \<^verbatim>\<open>_executeAuth\<close> for the user \<^verbatim>\<open>u\<close>
  and the csrf \<^verbatim>\<open>c\<close>, started at time 1346 and in flight, receives a response with
  the token \<^verbatim>\<open>tok\<close> and runs to its end while the other run is suspended at the
  given line. The environment \<open>later_env\<close> is that of a run whose clock is later.
\<close>

definition inflight_settles :: "nat \<Rightarrow> interleaving" where
  "inflight_settles line n s =
     (if n = line
      then snd (executeAuth_success cookie_env 1346 (Some ''u'') (Some ''c'') (Some ''tok'') s)
      else s)"

definition later_env :: env where
  "later_env =
     \<lparr>clock = (\<lambda>n. 2000 + int n),
      health_response =
        Inr \<lparr>h_status = Some ''healthy'', h_category = None, h_error = None\<rparr>,
      cookie_get = (\<lambda>n. if n = ''theme'' then Some ''dark'' else None),
      cookie_getAll = [(''theme'', ''dark''), (''remember_web_1'', ''r'')],
      auth_response = Inr (ResponseObject (Some ''tok'')), api_response = Inr []\<rparr>"

definition check_health_message :: message where
  "check_health_message = \<lparr>msg_type = ''CHECK_HEALTH'', msg_data = None\<rparr>"

definition example_data :: msg_data where
  "example_data =
     \<lparr>d_currentUser = Some ''u'', d_csrfToken = Some ''c'', d_user_id = None,
      d_category = None, d_token = Some ''t'', d_card_id = Some ''7'',
      d_users = Some [UserObject (Some ''a''), UserId ''b''], d_page = None\<rparr>"

definition fetch_message :: message where
  "fetch_message = \<lparr>msg_type = ''FETCH_USERS_CARD_STATUS'', msg_data = Some example_data\<rparr>"

section \<open>Properties\<close>

subsection \<open>The decision to authenticate\<close>

text \<open>
  Claim C1. The decision of \<^verbatim>\<open>shouldPerformAuth\<close> is a function of the token, the
  metadata, the current user, the current csrf and the current time only, and it is to
  authenticate exactly when the token is absent, or the token is present, user and csrf
  are both non-empty, and one of these holds: the user differs from \<open>lastUser\<close>, the
  csrf differs from \<open>lastCsrf\<close>, more than two hours (7200000 ms) have passed since
  \<open>lastTime\<close>, or \<open>failureCount\<close> is positive and more than 30 seconds have passed
  since \<open>lastAttempt\<close>. In particular a present token with a missing csrf or a missing
  user gives the decision to skip.
\<close>

theorem shouldPerformAuth_exactly_when:
  "(shouldAuth (shouldPerformAuth now tok meta currentUser currentCsrf) \<longleftrightarrow>
      (\<not> truthy tok \<or>
       (truthy tok \<and> truthy currentUser \<and> truthy currentCsrf \<and>
          (currentUser \<noteq> lastUser meta \<or>
           currentCsrf \<noteq> lastCsrf meta \<or>
           now - lastTime meta > 2 * 60 * 60 * 1000 \<or>
           (failureCount meta > 0 \<and> now - lastAttempt meta > 30000)))))
   \<and> (truthy tok \<and> (\<not> truthy currentCsrf \<or> \<not> truthy currentUser) \<longrightarrow>
        \<not> shouldAuth (shouldPerformAuth now tok meta currentUser currentCsrf))"
  by (simp add: shouldPerformAuth_def AUTH_THROTTLE_INTERVAL_def)

theorem shouldPerformAuth_exactly_when_witness:
  "shouldAuth (shouldPerformAuth 7200001 (Some ''t'')
      \<lparr>lastTime = 0, lastUser = Some ''u'', lastCsrf = Some ''c'', lastAttempt = 0,
       failureCount = 0\<rparr> (Some ''u'') (Some ''c''))
   \<and> \<not> shouldAuth (shouldPerformAuth 7200000 (Some ''t'')
      \<lparr>lastTime = 0, lastUser = Some ''u'', lastCsrf = Some ''c'', lastAttempt = 0,
       failureCount = 0\<rparr> (Some ''u'') (Some ''c''))
   \<and> \<not> shouldAuth (shouldPerformAuth 7200001 (Some ''t'')
      \<lparr>lastTime = 0, lastUser = Some ''u'', lastCsrf = Some ''c'', lastAttempt = 0,
       failureCount = 0\<rparr> (Some ''u'') None)"
  using
    shouldPerformAuth_exactly_when [of 7200001 "Some ''t''"
      "\<lparr>lastTime = 0, lastUser = Some ''u'', lastCsrf = Some ''c'', lastAttempt = 0,
        failureCount = 0\<rparr>" "Some ''u''" "Some ''c''"]
    shouldPerformAuth_exactly_when [of 7200000 "Some ''t''"
      "\<lparr>lastTime = 0, lastUser = Some ''u'', lastCsrf = Some ''c'', lastAttempt = 0,
        failureCount = 0\<rparr>" "Some ''u''" "Some ''c''"]
    shouldPerformAuth_exactly_when [of 7200001 "Some ''t''"
      "\<lparr>lastTime = 0, lastUser = Some ''u'', lastCsrf = Some ''c'', lastAttempt = 0,
        failureCount = 0\<rparr>" "Some ''u''" None]
  by (simp add: truthy_def)

subsection \<open>Expiry of cache entries\<close>

text \<open>
  Claim C3. After \<^verbatim>\<open>Cache.set(key, value, ttl)\<close> at time \<open>t\<close>, a
  \<^verbatim>\<open>Cache.get(key)\<close> at time \<open>t'\<close> returns the value when \<open>t' \<le> t + ttl\<close> and
  leaves the entry in place; when \<open>t' > t + ttl\<close> it returns \<^verbatim>\<open>null\<close> and removes
  the entry. A \<^verbatim>\<open>Cache.get\<close> of a key that the map does not hold, as after
  \<^verbatim>\<open>Cache.clear\<close>, returns \<^verbatim>\<open>null\<close>. A \<^verbatim>\<open>Cache.get\<close> of another key leaves
  the entry as it is, and a \<^verbatim>\<open>Cache.set\<close> without \<^verbatim>\<open>ttl\<close> is one with five
  minutes.
\<close>

theorem Cache_ttl_expiry:
  "(t' \<le> t + ttl \<longrightarrow>
      Cache_get t' key (Cache_set t key v (Some ttl) c)
        = (Some v, Cache_set t key v (Some ttl) c))
   \<and> (t' > t + ttl \<longrightarrow>
      fst (Cache_get t' key (Cache_set t key v (Some ttl) c)) = None
      \<and> snd (Cache_get t' key (Cache_set t key v (Some ttl) c)) key = None)
   \<and> (c key = None \<longrightarrow> Cache_get t' key c = (None, c))
   \<and> fst (Cache_get t' key (Cache_clear c)) = None
   \<and> (other \<noteq> key \<longrightarrow> snd (Cache_get t' other c) key = c key)
   \<and> Cache_set t key v None c = Cache_set t key v (Some (5 * 60 * 1000)) c"
proof (intro conjI impI)
  assume "t' \<le> t + ttl"
  then show "Cache_get t' key (Cache_set t key v (Some ttl) c)
        = (Some v, Cache_set t key v (Some ttl) c)"
    by (simp add: Cache_get_def Cache_set_def)
next
  assume late: "t' > t + ttl"
  then show "fst (Cache_get t' key (Cache_set t key v (Some ttl) c)) = None"
    by (simp add: Cache_get_def Cache_set_def)
  from late show "snd (Cache_get t' key (Cache_set t key v (Some ttl) c)) key = None"
    by (simp add: Cache_get_def Cache_set_def)
next
  assume "c key = None"
  then show "Cache_get t' key c = (None, c)"
    by (simp add: Cache_get_def)
next
  show "fst (Cache_get t' key (Cache_clear c)) = None"
    by (simp add: Cache_get_def Cache_clear_def)
next
  assume "other \<noteq> key"
  then show "snd (Cache_get t' other c) key = c key"
    by (simp add: Cache_get_def split: option.splits)
next
  show "Cache_set t key v None c = Cache_set t key v (Some (5 * 60 * 1000)) c"
    by (simp add: Cache_set_def CACHE_DURATION_def)
qed

theorem Cache_ttl_expiry_witness:
  "Cache_get 1500 ''k'' (Cache_set 1000 ''k'' (7::nat) (Some 500) Map.empty)
      = (Some 7, Cache_set 1000 ''k'' 7 (Some 500) Map.empty)
   \<and> fst (Cache_get 1501 ''k'' (Cache_set 1000 ''k'' (7::nat) (Some 500) Map.empty)) = None
   \<and> snd (Cache_get 1501 ''k'' (Cache_set 1000 ''k'' (7::nat) (Some 500) Map.empty)) ''k'' = None
   \<and> Cache_get 5 ''k'' (Map.empty :: nat cache) = (None, Map.empty)"
  using
    Cache_ttl_expiry [of 1500 1000 500 "''k''" "7::nat" Map.empty "''j''"]
    Cache_ttl_expiry [of 1501 1000 500 "''k''" "7::nat" Map.empty "''j''"]
    Cache_ttl_expiry [of 5 0 0 "''k''" "7::nat" Map.empty "''j''"]
  by simp

subsection \<open>What the functions of the script leave unchanged\<close>

lemma keys_distinct:
  "TOKEN \<noteq> AUTH_META" "TOKEN \<noteq> HEALTH_CACHE" "AUTH_META \<noteq> HEALTH_CACHE"
  "AUTH_META \<noteq> TOKEN" "HEALTH_CACHE \<noteq> TOKEN" "HEALTH_CACHE \<noteq> AUTH_META"
  by (simp_all add: TOKEN_def AUTH_META_def HEALTH_CACHE_def)

lemmas eval_defs =
  executeAuth_def executeAuth_success_def executeAuth_catch_def getAuthMeta_def setAuthMeta_def getToken_def
  setToken_def checkHealth_def getAllRelevantCookies_def getRequiredCookies_def
  getRememberWebCookies_def sendAuthData_def makeRequest_def StorageManager_get_def
  StorageManager_set_def StorageManager_invalidate_def StorageManager_remove_def
  Cache_get_def Cache_set_def Cache_clear_def or_null_def
  authMeta_default_def initial_def REQUIRED_COOKIES_def REMEMBER_WEB_PREFIX_def
  startsWith_def truthy_def Let_def TOKEN_def AUTH_META_def HEALTH_CACHE_def

text \<open>
  Four families of equations, one per field of the state: \<^verbatim>\<open>chrome.storage.local\<close>,
  \<^verbatim>\<open>StorageManager.cache\<close>, the requests sent, and \<^verbatim>\<open>Cache.data\<close>.
\<close>

named_theorems local_simps
named_theorems smc_simps
named_theorems req_simps
named_theorems cd_simps

lemma local_StorageManager_get [local_simps]:
  "storage_local (snd (StorageManager_get key s)) = storage_local s"
  by (simp add: StorageManager_get_def Let_def split: option.splits)

lemma local_StorageManager_set [local_simps]:
  "storage_local (StorageManager_set key v s) = (storage_local s)(key \<mapsto> v)"
  by (simp add: StorageManager_set_def)

lemma local_StorageManager_remove [local_simps]:
  "storage_local (StorageManager_remove key s) = (storage_local s)(key := None)"
  by (simp add: StorageManager_remove_def)

lemma local_StorageManager_invalidate [local_simps]:
  "storage_local (StorageManager_invalidate key s) = storage_local s"
  by (simp add: StorageManager_invalidate_def)

lemma local_makeRequest [local_simps]:
  "storage_local (snd (makeRequest req out s)) = storage_local s"
  by (simp add: makeRequest_def)

lemma local_checkHealth [local_simps]:
  "k \<noteq> HEALTH_CACHE \<Longrightarrow> storage_local (snd (checkHealth e s)) k = storage_local s k"
  by (simp add: checkHealth_def Let_def split_def local_simps
      split: option.splits cached.splits sum.splits)

lemma local_getRequiredCookies [local_simps]:
  "storage_local (snd (getRequiredCookies e s)) = storage_local s"
  by (simp add: getRequiredCookies_def Let_def split_def split: option.splits cached.splits)

lemma local_getRememberWebCookies [local_simps]:
  "storage_local (snd (getRememberWebCookies e s)) = storage_local s"
  by (simp add: getRememberWebCookies_def Let_def split_def split: option.splits cached.splits)

lemma local_getAllRelevantCookies [local_simps]:
  "storage_local (snd (getAllRelevantCookies e s)) = storage_local s"
  by (simp add: getAllRelevantCookies_def split_def local_simps)

lemma local_getAuthMeta [local_simps]:
  "storage_local (snd (getAuthMeta s)) = storage_local s"
  by (simp add: getAuthMeta_def split_def local_simps split: option.splits stored.splits)

lemma local_getToken [local_simps]:
  "storage_local (snd (getToken s)) = storage_local s"
  by (simp add: getToken_def split_def local_simps split: option.splits stored.splits)

lemma local_setAuthMeta [local_simps]:
  "storage_local (setAuthMeta m s) = (storage_local s)(AUTH_META \<mapsto> StoredMeta m)"
  by (simp add: setAuthMeta_def local_simps)

lemma local_setToken [local_simps]:
  "k \<noteq> TOKEN \<Longrightarrow> storage_local (setToken tok s) k = storage_local s k"
  by (simp add: setToken_def local_simps split: option.splits)

lemma local_sendAuthData [local_simps]:
  "storage_local (snd (sendAuthData c t e s)) = storage_local s"
  by (simp add: sendAuthData_def local_simps)

lemma local_executeAuth_catch [local_simps]:
  "k \<noteq> AUTH_META \<Longrightarrow>
     storage_local (snd (executeAuth_catch e t m msg s)) k = storage_local s k"
  by (simp add: executeAuth_catch_def Let_def local_simps)

lemma local_executeAuth [local_simps]:
  "k \<noteq> TOKEN \<Longrightarrow> k \<noteq> AUTH_META \<Longrightarrow> k \<noteq> HEALTH_CACHE \<Longrightarrow>
     storage_local (snd (executeAuth e u c s)) k = storage_local s k"
  by (simp add: executeAuth_def executeAuth_success_def Let_def split_def local_simps
      split: sum.splits auth_json.splits)

lemma local_performAuthentication [local_simps]:
  "k \<noteq> TOKEN \<Longrightarrow> k \<noteq> AUTH_META \<Longrightarrow> k \<noteq> HEALTH_CACHE \<Longrightarrow>
     storage_local (snd (performAuthentication e d s)) k = storage_local s k"
  by (simp add: performAuthentication_def split_def local_simps split: option.splits)

lemma local_handleAuthRequest [local_simps]:
  "k \<noteq> TOKEN \<Longrightarrow> k \<noteq> AUTH_META \<Longrightarrow> k \<noteq> HEALTH_CACHE \<Longrightarrow>
     storage_local (snd (handleAuthRequest alone e d s)) k = storage_local s k"
  by (simp add: handleAuthRequest_def alone_def Let_def split_def local_simps
      split: option.splits)

lemma local_getAuthStatus [local_simps]:
  "k \<noteq> HEALTH_CACHE \<Longrightarrow> storage_local (snd (getAuthStatus e s)) k = storage_local s k"
  by (simp add: getAuthStatus_def split_def local_simps)

lemma local_forceReauth [local_simps]:
  "k \<noteq> TOKEN \<Longrightarrow> k \<noteq> AUTH_META \<Longrightarrow> k \<noteq> HEALTH_CACHE \<Longrightarrow>
     storage_local (snd (forceReauth alone e d s)) k = storage_local s k"
  by (simp add: forceReauth_def alone_def Let_def local_simps)

lemma local_FETCH_begin [local_simps]:
  "storage_local (snd (FETCH_USERS_CARD_STATUS_begin e msg s)) = storage_local s"
  by (simp add: FETCH_USERS_CARD_STATUS_begin_def Let_def split_def local_simps
      split: option.splits)

lemma smc_StorageManager_get [smc_simps]:
  "k \<noteq> key \<Longrightarrow>
     StorageManager_cache (snd (StorageManager_get key s)) k = StorageManager_cache s k"
  by (simp add: StorageManager_get_def Let_def split: option.splits)

lemma smc_StorageManager_set [smc_simps]:
  "StorageManager_cache (StorageManager_set key v s) = (StorageManager_cache s)(key \<mapsto> Some v)"
  by (simp add: StorageManager_set_def)

lemma smc_makeRequest [smc_simps]:
  "StorageManager_cache (snd (makeRequest req out s)) = StorageManager_cache s"
  by (simp add: makeRequest_def)

lemma smc_checkHealth [smc_simps]:
  "k \<noteq> HEALTH_CACHE \<Longrightarrow>
     StorageManager_cache (snd (checkHealth e s)) k = StorageManager_cache s k"
  by (simp add: checkHealth_def Let_def split_def smc_simps
      split: option.splits cached.splits sum.splits)

lemma smc_getRequiredCookies [smc_simps]:
  "StorageManager_cache (snd (getRequiredCookies e s)) = StorageManager_cache s"
  by (simp add: getRequiredCookies_def Let_def split_def split: option.splits cached.splits)

lemma smc_getRememberWebCookies [smc_simps]:
  "StorageManager_cache (snd (getRememberWebCookies e s)) = StorageManager_cache s"
  by (simp add: getRememberWebCookies_def Let_def split_def split: option.splits cached.splits)

lemma smc_getAllRelevantCookies [smc_simps]:
  "StorageManager_cache (snd (getAllRelevantCookies e s)) = StorageManager_cache s"
  by (simp add: getAllRelevantCookies_def split_def smc_simps)

lemma smc_getAuthMeta [smc_simps]:
  "k \<noteq> AUTH_META \<Longrightarrow>
     StorageManager_cache (snd (getAuthMeta s)) k = StorageManager_cache s k"
  by (simp add: getAuthMeta_def split_def smc_simps split: option.splits stored.splits)

lemma smc_getToken [smc_simps]:
  "k \<noteq> TOKEN \<Longrightarrow> StorageManager_cache (snd (getToken s)) k = StorageManager_cache s k"
  by (simp add: getToken_def split_def smc_simps split: option.splits stored.splits)

lemma smc_setAuthMeta [smc_simps]:
  "StorageManager_cache (setAuthMeta m s) =
     (StorageManager_cache s)(AUTH_META \<mapsto> Some (StoredMeta m))"
  by (simp add: setAuthMeta_def smc_simps)

lemma smc_setToken [smc_simps]:
  "k \<noteq> TOKEN \<Longrightarrow> StorageManager_cache (setToken tok s) k = StorageManager_cache s k"
  by (simp add: setToken_def smc_simps split: option.splits)

lemma smc_sendAuthData [smc_simps]:
  "StorageManager_cache (snd (sendAuthData c t e s)) = StorageManager_cache s"
  by (simp add: sendAuthData_def smc_simps)

lemma smc_StorageManager_invalidate [smc_simps]:
  "k \<noteq> key \<Longrightarrow>
     StorageManager_cache (StorageManager_invalidate key s) k = StorageManager_cache s k"
  by (simp add: StorageManager_invalidate_def)

lemma req_StorageManager_get [req_simps]:
  "requests (snd (StorageManager_get key s)) = requests s"
  by (simp add: StorageManager_get_def Let_def split: option.splits)

lemma req_StorageManager_set [req_simps]:
  "requests (StorageManager_set key v s) = requests s"
  by (simp add: StorageManager_set_def)

lemma req_makeRequest [req_simps]:
  "requests (snd (makeRequest req out s)) = requests s @ [req]"
  by (simp add: makeRequest_def)

lemma req_checkHealth:
  "requests (snd (checkHealth e s)) = requests s \<or>
   requests (snd (checkHealth e s)) = requests s @ [Req_health]"
  by (simp add: checkHealth_def Let_def split_def req_simps
      split: option.splits cached.splits sum.splits)

lemma req_getRequiredCookies [req_simps]:
  "requests (snd (getRequiredCookies e s)) = requests s"
  by (simp add: getRequiredCookies_def Let_def split_def split: option.splits cached.splits)

lemma req_getRememberWebCookies [req_simps]:
  "requests (snd (getRememberWebCookies e s)) = requests s"
  by (simp add: getRememberWebCookies_def Let_def split_def split: option.splits cached.splits)

lemma req_getAllRelevantCookies [req_simps]:
  "requests (snd (getAllRelevantCookies e s)) = requests s"
  by (simp add: getAllRelevantCookies_def split_def req_simps)

lemma req_getAuthMeta [req_simps]:
  "requests (snd (getAuthMeta s)) = requests s"
  by (simp add: getAuthMeta_def split_def req_simps split: option.splits stored.splits)

lemma req_setAuthMeta [req_simps]:
  "requests (setAuthMeta m s) = requests s"
  by (simp add: setAuthMeta_def req_simps)

lemma req_setToken [req_simps]:
  "requests (setToken tok s) = requests s"
  by (simp add: setToken_def req_simps split: option.splits)

lemma req_executeAuth_catch [req_simps]:
  "requests (snd (executeAuth_catch e t m msg s)) = requests s"
  by (simp add: executeAuth_catch_def Let_def req_simps)

lemma req_sendAuthData [req_simps]:
  "requests (snd (sendAuthData c t e s)) = requests s @ [Req_set_http_data c t]"
  by (simp add: sendAuthData_def req_simps)

lemma cd_StorageManager_get [cd_simps]:
  "Cache_data (snd (StorageManager_get key s)) = Cache_data s"
  by (simp add: StorageManager_get_def Let_def split: option.splits)

lemma cd_StorageManager_set [cd_simps]:
  "Cache_data (StorageManager_set key v s) = Cache_data s"
  by (simp add: StorageManager_set_def)

lemma cd_StorageManager_remove [cd_simps]:
  "Cache_data (StorageManager_remove key s) = Cache_data s"
  by (simp add: StorageManager_remove_def)

lemma cd_StorageManager_invalidate [cd_simps]:
  "Cache_data (StorageManager_invalidate key s) = Cache_data s"
  by (simp add: StorageManager_invalidate_def)

lemma cd_makeRequest [cd_simps]:
  "Cache_data (snd (makeRequest req out s)) = Cache_data s"
  by (simp add: makeRequest_def)

lemma cd_getAuthMeta [cd_simps]:
  "Cache_data (snd (getAuthMeta s)) = Cache_data s"
  by (simp add: getAuthMeta_def split_def cd_simps split: option.splits stored.splits)

lemma cd_getToken [cd_simps]:
  "Cache_data (snd (getToken s)) = Cache_data s"
  by (simp add: getToken_def split_def cd_simps split: option.splits stored.splits)

lemma cd_setAuthMeta [cd_simps]:
  "Cache_data (setAuthMeta m s) = Cache_data s"
  by (simp add: setAuthMeta_def cd_simps)

lemma cd_setToken [cd_simps]:
  "Cache_data (setToken tok s) = Cache_data s"
  by (simp add: setToken_def cd_simps split: option.splits)

lemma cd_sendAuthData [cd_simps]:
  "Cache_data (snd (sendAuthData c t e s)) = Cache_data s"
  by (simp add: sendAuthData_def cd_simps)

lemma cd_executeAuth_catch [cd_simps]:
  "Cache_data (snd (executeAuth_catch e t m msg s)) = Cache_data s"
  by (simp add: executeAuth_catch_def Let_def cd_simps)

named_theorems pend_simps

lemma pend_StorageManager_get [pend_simps]:
  "PendingUserStatusRequests (snd (StorageManager_get key s)) = PendingUserStatusRequests s"
  by (simp add: StorageManager_get_def Let_def split: option.splits)

lemma pend_StorageManager_set [pend_simps]:
  "PendingUserStatusRequests (StorageManager_set key v s) = PendingUserStatusRequests s"
  by (simp add: StorageManager_set_def)

lemma pend_StorageManager_remove [pend_simps]:
  "PendingUserStatusRequests (StorageManager_remove key s) = PendingUserStatusRequests s"
  by (simp add: StorageManager_remove_def)

lemma pend_StorageManager_invalidate [pend_simps]:
  "PendingUserStatusRequests (StorageManager_invalidate key s) = PendingUserStatusRequests s"
  by (simp add: StorageManager_invalidate_def)

lemma pend_StorageManager_clearCache [pend_simps]:
  "PendingUserStatusRequests (StorageManager_clearCache s) = PendingUserStatusRequests s"
  by (simp add: StorageManager_clearCache_def)

lemma pend_makeRequest [pend_simps]:
  "PendingUserStatusRequests (snd (makeRequest req out s)) = PendingUserStatusRequests s"
  by (simp add: makeRequest_def)

lemma pend_checkHealth [pend_simps]:
  "PendingUserStatusRequests (snd (checkHealth e s)) = PendingUserStatusRequests s"
  by (simp add: checkHealth_def Let_def split_def pend_simps
      split: option.splits cached.splits sum.splits)

lemma pend_getRequiredCookies [pend_simps]:
  "PendingUserStatusRequests (snd (getRequiredCookies e s)) = PendingUserStatusRequests s"
  by (simp add: getRequiredCookies_def Let_def split_def split: option.splits cached.splits)

lemma pend_getRememberWebCookies [pend_simps]:
  "PendingUserStatusRequests (snd (getRememberWebCookies e s)) = PendingUserStatusRequests s"
  by (simp add: getRememberWebCookies_def Let_def split_def split: option.splits cached.splits)

lemma pend_getAllRelevantCookies [pend_simps]:
  "PendingUserStatusRequests (snd (getAllRelevantCookies e s)) = PendingUserStatusRequests s"
  by (simp add: getAllRelevantCookies_def split_def pend_simps)

lemma pend_getAuthMeta [pend_simps]:
  "PendingUserStatusRequests (snd (getAuthMeta s)) = PendingUserStatusRequests s"
  by (simp add: getAuthMeta_def split_def pend_simps split: option.splits stored.splits)

lemma pend_getToken [pend_simps]:
  "PendingUserStatusRequests (snd (getToken s)) = PendingUserStatusRequests s"
  by (simp add: getToken_def split_def pend_simps split: option.splits stored.splits)

lemma pend_setAuthMeta [pend_simps]:
  "PendingUserStatusRequests (setAuthMeta m s) = PendingUserStatusRequests s"
  by (simp add: setAuthMeta_def pend_simps)

lemma pend_setToken [pend_simps]:
  "PendingUserStatusRequests (setToken tok s) = PendingUserStatusRequests s"
  by (simp add: setToken_def pend_simps split: option.splits)

lemma pend_sendAuthData [pend_simps]:
  "PendingUserStatusRequests (snd (sendAuthData c t e s)) = PendingUserStatusRequests s"
  by (simp add: sendAuthData_def pend_simps)

lemma pend_executeAuth_catch [pend_simps]:
  "PendingUserStatusRequests (snd (executeAuth_catch e t m msg s)) = PendingUserStatusRequests s"
  by (simp add: executeAuth_catch_def Let_def pend_simps)

lemma pend_executeAuth_success [pend_simps]:
  "PendingUserStatusRequests (snd (executeAuth_success e t u c tok s)) = PendingUserStatusRequests s"
  by (simp add: executeAuth_success_def Let_def pend_simps)

lemma pend_executeAuth [pend_simps]:
  "PendingUserStatusRequests (snd (executeAuth e u c s)) = PendingUserStatusRequests s"
  by (simp add: executeAuth_def Let_def split_def pend_simps
      split: sum.splits auth_json.splits)

lemma pend_performAuthentication [pend_simps]:
  "PendingUserStatusRequests (snd (performAuthentication e d s)) = PendingUserStatusRequests s"
  by (simp add: performAuthentication_def split_def pend_simps split: option.splits)

lemma pend_handleAuthRequest [pend_simps]:
  "PendingUserStatusRequests (snd (handleAuthRequest alone e d s)) = PendingUserStatusRequests s"
  by (simp add: handleAuthRequest_def alone_def Let_def split_def pend_simps
      split: option.splits)

lemma pend_getAuthStatus [pend_simps]:
  "PendingUserStatusRequests (snd (getAuthStatus e s)) = PendingUserStatusRequests s"
  by (simp add: getAuthStatus_def split_def pend_simps)

lemma pend_forceReauth [pend_simps]:
  "PendingUserStatusRequests (snd (forceReauth alone e d s)) = PendingUserStatusRequests s"
  by (simp add: forceReauth_def alone_def Let_def pend_simps)

subsection \<open>The metadata record\<close>

lemma getAuthMeta_setAuthMeta: "fst (getAuthMeta (setAuthMeta m s)) = m"
  by (simp add: getAuthMeta_def setAuthMeta_def StorageManager_get_def StorageManager_set_def)

lemma getAuthMeta_cached:
  "StorageManager_cache s AUTH_META = Some (Some (StoredMeta m)) \<Longrightarrow> getAuthMeta s = (m, s)"
  by (simp add: getAuthMeta_def StorageManager_get_def)

lemma fst_executeAuth_catch:
  "fst (executeAuth_catch e t m msg s) =
     \<lparr>success = False, token = None, error = Some msg, duration = clock e 408 - t\<rparr>"
  by (simp add: executeAuth_catch_def Let_def)

lemma snd_executeAuth_catch:
  "snd (executeAuth_catch e t m msg s)
     = setAuthMeta (m\<lparr>lastAttempt := t, failureCount := failureCount m + 1\<rparr>) s"
  by (simp add: executeAuth_catch_def Let_def)

text \<open>
  Claim C6, as the code has it. The metadata record has five fields, \<open>lastTime\<close>,
  \<open>lastUser\<close>, \<open>lastCsrf\<close>, \<open>lastAttempt\<close> and \<open>failureCount\<close>: a record is
  determined by these five, and \<^verbatim>\<open>getAuthMeta\<close> returns all five as
  \<^verbatim>\<open>setAuthMeta\<close> saved them. On a store that holds nothing under the metadata key,
  \<^verbatim>\<open>getAuthMeta\<close> returns the record with \<open>lastTime = 0\<close>, \<open>lastUser = null\<close>,
  \<open>lastCsrf = null\<close>, \<open>lastAttempt = 0\<close> and \<open>failureCount = 0\<close>.
\<close>

theorem getAuthMeta_five_fields:
  "(StorageManager_cache s AUTH_META = None \<and> storage_local s AUTH_META = None \<longrightarrow>
      fst (getAuthMeta s) =
        \<lparr>lastTime = 0, lastUser = None, lastCsrf = None, lastAttempt = 0, failureCount = 0\<rparr>)
   \<and> fst (getAuthMeta (setAuthMeta m s)) = m
   \<and> m = \<lparr>lastTime = lastTime m, lastUser = lastUser m, lastCsrf = lastCsrf m,
          lastAttempt = lastAttempt m, failureCount = failureCount m\<rparr>"
  by (simp add: getAuthMeta_setAuthMeta)
     (simp add: getAuthMeta_def StorageManager_get_def or_null_def authMeta_default_def)

theorem getAuthMeta_five_fields_witness:
  "fst (getAuthMeta initial) =
     \<lparr>lastTime = 0, lastUser = None, lastCsrf = None, lastAttempt = 0, failureCount = 0\<rparr>
   \<and> fst (getAuthMeta (setAuthMeta
        \<lparr>lastTime = 5, lastUser = Some ''u'', lastCsrf = Some ''c'', lastAttempt = 4,
         failureCount = 2\<rparr> initial))
      = \<lparr>lastTime = 5, lastUser = Some ''u'', lastCsrf = Some ''c'', lastAttempt = 4,
         failureCount = 2\<rparr>"
  using getAuthMeta_five_fields [of initial
      "\<lparr>lastTime = 5, lastUser = Some ''u'', lastCsrf = Some ''c'', lastAttempt = 4,
        failureCount = 2\<rparr>"]
  by (simp add: initial_def)

text \<open>
  Claim C6 as it is stated fails: the record is not made of the four fields last time,
  last user, last csrf and failure count. Two records that agree on these four and differ
  in \<open>lastAttempt\<close> get different decisions from \<^verbatim>\<open>shouldPerformAuth\<close>, and a
  failed attempt on the initial store saves its start time in \<open>lastAttempt\<close>.
\<close>

theorem auth_meta_has_a_fifth_field:
  "lastTime \<lparr>lastTime = 0, lastUser = Some ''u'', lastCsrf = Some ''c'', lastAttempt = 0,
       failureCount = 1\<rparr>
     = lastTime \<lparr>lastTime = 0, lastUser = Some ''u'', lastCsrf = Some ''c'',
         lastAttempt = 100000, failureCount = 1\<rparr>
   \<and> lastUser \<lparr>lastTime = 0, lastUser = Some ''u'', lastCsrf = Some ''c'', lastAttempt = 0,
       failureCount = 1\<rparr>
     = lastUser \<lparr>lastTime = 0, lastUser = Some ''u'', lastCsrf = Some ''c'',
         lastAttempt = 100000, failureCount = 1\<rparr>
   \<and> lastCsrf \<lparr>lastTime = 0, lastUser = Some ''u'', lastCsrf = Some ''c'', lastAttempt = 0,
       failureCount = 1\<rparr>
     = lastCsrf \<lparr>lastTime = 0, lastUser = Some ''u'', lastCsrf = Some ''c'',
         lastAttempt = 100000, failureCount = 1\<rparr>
   \<and> failureCount \<lparr>lastTime = 0, lastUser = Some ''u'', lastCsrf = Some ''c'',
       lastAttempt = 0, failureCount = 1\<rparr>
     = failureCount \<lparr>lastTime = 0, lastUser = Some ''u'', lastCsrf = Some ''c'',
         lastAttempt = 100000, failureCount = 1\<rparr>
   \<and> shouldAuth (shouldPerformAuth 100000 (Some ''t'')
        \<lparr>lastTime = 0, lastUser = Some ''u'', lastCsrf = Some ''c'', lastAttempt = 0,
         failureCount = 1\<rparr> (Some ''u'') (Some ''c''))
   \<and> \<not> shouldAuth (shouldPerformAuth 100000 (Some ''t'')
        \<lparr>lastTime = 0, lastUser = Some ''u'', lastCsrf = Some ''c'', lastAttempt = 100000,
         failureCount = 1\<rparr> (Some ''u'') (Some ''c''))
   \<and> lastAttempt (fst (getAuthMeta
        (snd (executeAuth no_cookie_env (Some ''u'') (Some ''c'') initial)))) = 1346"
  by (simp add: shouldPerformAuth_def AUTH_THROTTLE_INTERVAL_def no_cookie_env_def eval_defs)

subsection \<open>Authentication and the site's cookies\<close>

lemma requests_executeAuth:
  "requests (snd (executeAuth e u c s)) = requests s
   \<or> requests (snd (executeAuth e u c s)) = requests s @ [Req_health]
   \<or> (collectedCookies e s \<noteq> [] \<and> h_status (healthOf e s) = Some ''healthy'' \<and>
       (requests (snd (executeAuth e u c s))
          = requests s @ [Req_set_http_data (collectedCookies e s) c]
        \<or> requests (snd (executeAuth e u c s))
          = requests s @ [Req_health, Req_set_http_data (collectedCookies e s) c]))"
  using req_checkHealth [of e "snd (getAuthMeta s)"]
  by (auto simp add: executeAuth_def executeAuth_success_def Let_def split_def req_simps healthOf_def
      collectedCookies_def split: sum.splits auth_json.splits)

lemma no_cookie_env_collects_nothing: "collectedCookies no_cookie_env initial = []"
  by (simp add: collectedCookies_def no_cookie_env_def eval_defs)

lemma cookie_env_collects:
  "collectedCookies cookie_env initial = [(''theme'', ''dark''), (''remember_web_1'', ''r'')]"
  "h_status (healthOf cookie_env initial) = Some ''healthy''"
  by (simp_all add: collectedCookies_def healthOf_def cookie_env_def eval_defs)

text \<open>
  Claim C7. When the cookies that a run of \<^verbatim>\<open>_executeAuth\<close> collects are none, the
  run returns \<^verbatim>\<open>success: false\<close> with an error, and none of the requests it sends
  is the one that carries the auth data; with a healthy API the error is
  \<^verbatim>\<open>No cookies found\<close>. When the API is healthy and there are cookies, the last
  request of the run sends the collected cookies and the csrf token to the API.
\<close>

theorem executeAuth_sends_cookies_or_fails:
  "(collectedCookies e s = [] \<longrightarrow>
      \<not> success (fst (executeAuth e u c s))
      \<and> error (fst (executeAuth e u c s)) \<noteq> None
      \<and> (\<forall>ck t. Req_set_http_data ck t
            \<notin> set (drop (length (requests s)) (requests (snd (executeAuth e u c s))))))
   \<and> (collectedCookies e s = [] \<and> h_status (healthOf e s) = Some ''healthy'' \<longrightarrow>
      error (fst (executeAuth e u c s)) = Some ''No cookies found'')
   \<and> (collectedCookies e s \<noteq> [] \<and> h_status (healthOf e s) = Some ''healthy'' \<longrightarrow>
      last (requests (snd (executeAuth e u c s)))
        = Req_set_http_data (collectedCookies e s) c)"
proof (intro conjI impI)
  assume empty: "collectedCookies e s = []"
  show "\<not> success (fst (executeAuth e u c s))"
    using empty
    by (simp add: executeAuth_def executeAuth_success_def Let_def split_def fst_executeAuth_catch
        collectedCookies_def)
  show "error (fst (executeAuth e u c s)) \<noteq> None"
    using empty
    by (simp add: executeAuth_def executeAuth_success_def Let_def split_def fst_executeAuth_catch
        collectedCookies_def)
  show "\<forall>ck t. Req_set_http_data ck t
          \<notin> set (drop (length (requests s)) (requests (snd (executeAuth e u c s))))"
    using empty requests_executeAuth [of e u c s] by auto
next
  assume "collectedCookies e s = [] \<and> h_status (healthOf e s) = Some ''healthy''"
  then show "error (fst (executeAuth e u c s)) = Some ''No cookies found''"
    by (simp add: executeAuth_def executeAuth_success_def Let_def split_def fst_executeAuth_catch
        collectedCookies_def healthOf_def)
next
  assume "collectedCookies e s \<noteq> [] \<and> h_status (healthOf e s) = Some ''healthy''"
  then show "last (requests (snd (executeAuth e u c s)))
        = Req_set_http_data (collectedCookies e s) c"
    by (simp add: executeAuth_def executeAuth_success_def Let_def split_def req_simps
        collectedCookies_def healthOf_def split: sum.splits auth_json.splits)
qed

theorem executeAuth_sends_cookies_or_fails_witness:
  "collectedCookies no_cookie_env initial = []
   \<and> fst (executeAuth no_cookie_env (Some ''u'') (Some ''c'') initial)
       = \<lparr>success = False, token = None, error = Some ''No cookies found'', duration = 62\<rparr>
   \<and> requests (snd (executeAuth no_cookie_env (Some ''u'') (Some ''c'') initial)) = [Req_health]
   \<and> last (requests (snd (executeAuth cookie_env (Some ''u'') (Some ''c'') initial)))
       = Req_set_http_data [(''theme'', ''dark''), (''remember_web_1'', ''r'')] (Some ''c'')"
  using executeAuth_sends_cookies_or_fails [of no_cookie_env initial "Some ''u''" "Some ''c''"]
    executeAuth_sends_cookies_or_fails [of cookie_env initial "Some ''u''" "Some ''c''"]
    no_cookie_env_collects_nothing cookie_env_collects
  by (simp add: no_cookie_env_def eval_defs)

subsection \<open>What an attempt writes\<close>

lemma getToken_depends:
  "StorageManager_cache s' TOKEN = StorageManager_cache s TOKEN \<Longrightarrow>
   storage_local s' TOKEN = storage_local s TOKEN \<Longrightarrow>
     fst (getToken s') = fst (getToken s)"
  by (simp add: getToken_def StorageManager_get_def Let_def split_def
      split: option.splits stored.splits)

lemma failure_keeps_token_cache:
  "\<not> success (fst (executeAuth e u c s)) \<Longrightarrow>
     StorageManager_cache (snd (executeAuth e u c s)) TOKEN = StorageManager_cache s TOKEN"
  by (simp add: executeAuth_def executeAuth_success_def Let_def split_def smc_simps keys_distinct
      snd_executeAuth_catch fst_executeAuth_catch
      split: sum.splits auth_json.splits if_splits)

lemma failure_keeps_token_local:
  "\<not> success (fst (executeAuth e u c s)) \<Longrightarrow>
     storage_local (snd (executeAuth e u c s)) TOKEN = storage_local s TOKEN"
  by (simp add: executeAuth_def executeAuth_success_def Let_def split_def local_simps keys_distinct
      fst_executeAuth_catch split: sum.splits auth_json.splits if_splits)

lemma failure_meta:
  "\<not> success (fst (executeAuth e u c s)) \<Longrightarrow>
     storage_local (snd (executeAuth e u c s)) AUTH_META =
        Some (StoredMeta ((fst (getAuthMeta s))
          \<lparr>lastAttempt := clock e 346,
           failureCount := failureCount (fst (getAuthMeta s)) + 1\<rparr>))
     \<and> fst (getAuthMeta (snd (executeAuth e u c s))) = (fst (getAuthMeta s))
          \<lparr>lastAttempt := clock e 346,
           failureCount := failureCount (fst (getAuthMeta s)) + 1\<rparr>"
  by (simp add: executeAuth_def executeAuth_success_def Let_def split_def snd_executeAuth_catch
      getAuthMeta_setAuthMeta local_simps
      split: sum.splits auth_json.splits if_splits)

lemma success_meta:
  "success (fst (executeAuth e u c s)) \<Longrightarrow>
     fst (getAuthMeta (snd (executeAuth e u c s))) =
       \<lparr>lastTime = clock e 379, lastUser = u, lastCsrf = c, lastAttempt = clock e 346,
        failureCount = 0\<rparr>"
  by (simp add: executeAuth_def executeAuth_success_def Let_def split_def fst_executeAuth_catch
      getAuthMeta_setAuthMeta
      split: sum.splits auth_json.splits if_splits)

text \<open>
  Claim C8. When a run of \<^verbatim>\<open>_executeAuth\<close> fails, the metadata it leaves is the
  metadata it read at its start with \<open>lastAttempt\<close> set to the start time of the
  attempt and \<open>failureCount\<close> incremented by one, so \<open>lastTime\<close>, \<open>lastUser\<close> and
  \<open>lastCsrf\<close> keep their values; the token, in storage and as \<^verbatim>\<open>getToken\<close> reads
  it, is unchanged. When the run succeeds, \<open>failureCount\<close> is 0 and \<open>lastUser\<close> and
  \<open>lastCsrf\<close> are the user and the csrf of the attempt. The statement is about one
  run, with no write of another handler during it.
\<close>

theorem executeAuth_metadata_update:
  "(\<not> success (fst (executeAuth e u c s)) \<longrightarrow>
      fst (getAuthMeta (snd (executeAuth e u c s))) =
        (fst (getAuthMeta s))
          \<lparr>lastAttempt := clock e 346,
           failureCount := failureCount (fst (getAuthMeta s)) + 1\<rparr>
      \<and> storage_local (snd (executeAuth e u c s)) AUTH_META =
          Some (StoredMeta ((fst (getAuthMeta s))
            \<lparr>lastAttempt := clock e 346,
             failureCount := failureCount (fst (getAuthMeta s)) + 1\<rparr>))
      \<and> storage_local (snd (executeAuth e u c s)) TOKEN = storage_local s TOKEN
      \<and> StorageManager_cache (snd (executeAuth e u c s)) TOKEN = StorageManager_cache s TOKEN
      \<and> fst (getToken (snd (executeAuth e u c s))) = fst (getToken s))
   \<and> (success (fst (executeAuth e u c s)) \<longrightarrow>
      failureCount (fst (getAuthMeta (snd (executeAuth e u c s)))) = 0
      \<and> lastUser (fst (getAuthMeta (snd (executeAuth e u c s)))) = u
      \<and> lastCsrf (fst (getAuthMeta (snd (executeAuth e u c s)))) = c)"
  using failure_meta [of e u c s] failure_keeps_token_local [of e u c s]
    failure_keeps_token_cache [of e u c s] success_meta [of e u c s]
    getToken_depends [of "snd (executeAuth e u c s)" s]
  by auto

theorem executeAuth_metadata_update_witness:
  "\<not> success (fst (executeAuth no_cookie_env (Some ''u'') (Some ''c'') initial))
   \<and> fst (getAuthMeta (snd (executeAuth no_cookie_env (Some ''u'') (Some ''c'') initial)))
       = \<lparr>lastTime = 0, lastUser = None, lastCsrf = None, lastAttempt = 1346,
          failureCount = 1\<rparr>
   \<and> fst (getToken (snd (executeAuth no_cookie_env (Some ''u'') (Some ''c'') initial))) = None
   \<and> success (fst (executeAuth cookie_env (Some ''u'') (Some ''c'') initial))
   \<and> fst (getAuthMeta (snd (executeAuth cookie_env (Some ''u'') (Some ''c'') initial)))
       = \<lparr>lastTime = 1379, lastUser = Some ''u'', lastCsrf = Some ''c'', lastAttempt = 1346,
          failureCount = 0\<rparr>"
proof -
  have f: "\<not> success (fst (executeAuth no_cookie_env (Some ''u'') (Some ''c'') initial))"
    by (simp add: no_cookie_env_def eval_defs)
  have g: "success (fst (executeAuth cookie_env (Some ''u'') (Some ''c'') initial))"
    by (simp add: cookie_env_def eval_defs)
  have m: "fst (getAuthMeta initial) = authMeta_default" "fst (getToken initial) = None"
    by (simp_all add: eval_defs)
  have h: "fst (getAuthMeta (snd (executeAuth cookie_env (Some ''u'') (Some ''c'') initial)))
       = \<lparr>lastTime = 1379, lastUser = Some ''u'', lastCsrf = Some ''c'', lastAttempt = 1346,
          failureCount = 0\<rparr>"
    using success_meta [OF g] by (simp add: cookie_env_def)
  show ?thesis
    using executeAuth_metadata_update [of no_cookie_env "Some ''u''" "Some ''c''" initial]
      executeAuth_metadata_update [of cookie_env "Some ''u''" "Some ''c''" initial] f g m h
    by (simp add: authMeta_default_def no_cookie_env_def)
qed

subsection \<open>Forced re-authentication\<close>

lemma decide_on_reset_meta:
  "truthy user \<Longrightarrow> truthy csrf \<Longrightarrow>
     shouldAuth (shouldPerformAuth now tok
        \<lparr>lastTime = 0, lastUser = None, lastCsrf = None, lastAttempt = 0, failureCount = 0\<rparr>
        user csrf)
     \<and> (reason (shouldPerformAuth now tok
        \<lparr>lastTime = 0, lastUser = None, lastCsrf = None, lastAttempt = 0, failureCount = 0\<rparr>
        user csrf) = ''no_token'' \<or> reason (shouldPerformAuth now tok
        \<lparr>lastTime = 0, lastUser = None, lastCsrf = None, lastAttempt = 0, failureCount = 0\<rparr>
        user csrf) = ''user_changed'')"
  by (auto simp: shouldPerformAuth_def truthy_def split: option.splits)

text \<open>
  When nothing else runs while \<^verbatim>\<open>forceReauth\<close> is suspended, the metadata that
  line 427 reads is the zero record, and the result has \<^verbatim>\<open>shouldAuth: true\<close> with
  the reason \<^verbatim>\<open>no_token\<close> or \<^verbatim>\<open>user_changed\<close>.
\<close>

lemma forceReauth_alone_authenticates:
  assumes "truthy (d_currentUser d)" and "truthy (d_csrfToken d)"
  shows "hr_shouldAuth (fst (forceReauth alone e (Some d) s))
     \<and> (hr_reason (fst (forceReauth alone e (Some d) s)) = Some ''no_token''
        \<or> hr_reason (fst (forceReauth alone e (Some d) s)) = Some ''user_changed'')"
proof -
  define s4 where "s4 = StorageManager_invalidate TOKEN
      ((setAuthMeta \<lparr>lastTime = 0, lastUser = None, lastCsrf = None, lastAttempt = 0,
          failureCount = 0\<rparr> s)
        \<lparr>Cache_data := Cache_clear (Cache_data (setAuthMeta
          \<lparr>lastTime = 0, lastUser = None, lastCsrf = None, lastAttempt = 0,
           failureCount = 0\<rparr> s))\<rparr>)"
  have "StorageManager_cache (snd (getToken s4)) AUTH_META =
     Some (Some (StoredMeta \<lparr>lastTime = 0, lastUser = None, lastCsrf = None, lastAttempt = 0,
                  failureCount = 0\<rparr>))"
    by (simp add: s4_def smc_simps keys_distinct)
  then have m: "getAuthMeta (snd (getToken s4)) =
     (\<lparr>lastTime = 0, lastUser = None, lastCsrf = None, lastAttempt = 0, failureCount = 0\<rparr>,
      snd (getToken s4))"
    by (rule getAuthMeta_cached)
  have f: "forceReauth alone e (Some d) s = handleAuthRequest alone e (Some d) s4"
    by (simp add: forceReauth_def alone_def s4_def Let_def)
  show ?thesis
    using assms decide_on_reset_meta [OF assms]
    by (simp add: f handleAuthRequest_def alone_def m Let_def split_def)
qed

text \<open>
  Claim C9 at a run of \<^verbatim>\<open>forceReauth\<close> for the user \<^verbatim>\<open>u\<close> and the csrf
  \<^verbatim>\<open>c\<close>, both non-empty, during which an \<^verbatim>\<open>_executeAuth\<close> for the same user
  and csrf, in flight since before, gets its response with a token. In the first run of
  the statement the store is empty and the response arrives while \<^verbatim>\<open>forceReauth\<close>
  is suspended at line 484; in the second a token is stored already and the response
  arrives while \<^verbatim>\<open>handleAuthRequest\<close> is suspended at line 426. Either time
  \<^verbatim>\<open>_executeAuth\<close> saves its record (line 386) over the zero record, line 427 reads
  that record, and the decision is to skip, with the reason \<^verbatim>\<open>throttled\<close>: no
  authentication is forced.
\<close>

theorem forceReauth_throttled_when_inflight_settles:
  "fst (forceReauth (inflight_settles 484) later_env (Some example_data) initial)
     = \<lparr>hr_success = True, hr_error = None, hr_shouldAuth = False,
        hr_reason = Some ''throttled'', hr_token = Some ''tok'', hr_duration = None\<rparr>
   \<and> fst (forceReauth (inflight_settles 426) later_env (Some example_data)
        (setToken (Some ''old'') initial))
     = \<lparr>hr_success = True, hr_error = None, hr_shouldAuth = False,
        hr_reason = Some ''throttled'', hr_token = Some ''old'', hr_duration = None\<rparr>
   \<and> truthy (d_currentUser example_data) \<and> truthy (d_csrfToken example_data)"
  by (simp add: forceReauth_def handleAuthRequest_def inflight_settles_def
      shouldPerformAuth_def AUTH_THROTTLE_INTERVAL_def example_data_def later_env_def
      cookie_env_def eval_defs)

subsection \<open>The kinds of the stored values\<close>

named_theorems kinded_simps

lemma kinded_fields [kinded_simps]:
  "kinded (s\<lparr>Cache_data := c\<rparr>) = kinded s"
  "kinded (s\<lparr>requests := r\<rparr>) = kinded s"
  "kinded (s\<lparr>pendingAuthRequest := p\<rparr>) = kinded s"
  "kinded (s\<lparr>PendingUserStatusRequests := q\<rparr>) = kinded s"
  by (simp_all add: kinded_def)

lemma kinded_StorageManager_get [kinded_simps]:
  "kinded s \<Longrightarrow> kinded (snd (StorageManager_get key s))"
  by (auto simp: kinded_def StorageManager_get_def Let_def or_null_def
      split: option.splits stored.splits list.splits if_splits)

lemma kinded_StorageManager_set [kinded_simps]:
  "kinded s \<Longrightarrow> kind_ok key v \<Longrightarrow> kinded (StorageManager_set key v s)"
  by (auto simp: kinded_def StorageManager_set_def split: if_splits)

lemma kinded_StorageManager_remove [kinded_simps]:
  "kinded s \<Longrightarrow> kinded (StorageManager_remove key s)"
  by (auto simp: kinded_def StorageManager_remove_def split: if_splits)

lemma kinded_StorageManager_invalidate [kinded_simps]:
  "kinded s \<Longrightarrow> kinded (StorageManager_invalidate key s)"
  by (auto simp: kinded_def StorageManager_invalidate_def split: if_splits)

lemma kinded_StorageManager_clearCache [kinded_simps]:
  "kinded s \<Longrightarrow> kinded (StorageManager_clearCache s)"
  by (auto simp: kinded_def StorageManager_clearCache_def split: if_splits)

lemma kinded_makeRequest [kinded_simps]:
  "kinded s \<Longrightarrow> kinded (snd (makeRequest req out s))"
  by (simp add: makeRequest_def kinded_simps)

lemma kinded_checkHealth [kinded_simps]:
  "kinded s \<Longrightarrow> kinded (snd (checkHealth e s))"
  by (simp add: checkHealth_def Let_def split_def kinded_simps kind_ok_def
      split: option.splits cached.splits sum.splits)

lemma kinded_getRequiredCookies [kinded_simps]:
  "kinded s \<Longrightarrow> kinded (snd (getRequiredCookies e s))"
  by (simp add: getRequiredCookies_def Let_def split_def kinded_simps
      split: option.splits cached.splits)

lemma kinded_getRememberWebCookies [kinded_simps]:
  "kinded s \<Longrightarrow> kinded (snd (getRememberWebCookies e s))"
  by (simp add: getRememberWebCookies_def Let_def split_def kinded_simps
      split: option.splits cached.splits)

lemma kinded_getAllRelevantCookies [kinded_simps]:
  "kinded s \<Longrightarrow> kinded (snd (getAllRelevantCookies e s))"
  by (simp add: getAllRelevantCookies_def split_def kinded_simps)

lemma kinded_getAuthMeta [kinded_simps]:
  "kinded s \<Longrightarrow> kinded (snd (getAuthMeta s))"
  by (simp add: getAuthMeta_def split_def kinded_simps split: option.splits stored.splits)

lemma kinded_getToken [kinded_simps]:
  "kinded s \<Longrightarrow> kinded (snd (getToken s))"
  by (simp add: getToken_def split_def kinded_simps split: option.splits stored.splits)

lemma kinded_setAuthMeta [kinded_simps]:
  "kinded s \<Longrightarrow> kinded (setAuthMeta m s)"
  by (simp add: setAuthMeta_def kinded_simps kind_ok_def)

lemma kinded_setToken [kinded_simps]:
  "kinded s \<Longrightarrow> kinded (setToken tok s)"
  by (simp add: setToken_def kinded_simps kind_ok_def split: option.splits)

lemma kinded_sendAuthData [kinded_simps]:
  "kinded s \<Longrightarrow> kinded (snd (sendAuthData c t e s))"
  by (simp add: sendAuthData_def kinded_simps)

lemma kinded_executeAuth_catch [kinded_simps]:
  "kinded s \<Longrightarrow> kinded (snd (executeAuth_catch e t m msg s))"
  by (simp add: executeAuth_catch_def Let_def kinded_simps)

lemma kinded_executeAuth [kinded_simps]:
  "kinded s \<Longrightarrow> kinded (snd (executeAuth e u c s))"
  by (simp add: executeAuth_def executeAuth_success_def Let_def split_def kinded_simps
      split: sum.splits auth_json.splits)

lemma kinded_performAuthentication [kinded_simps]:
  "kinded s \<Longrightarrow> kinded (snd (performAuthentication e d s))"
  by (simp add: performAuthentication_def split_def kinded_simps split: option.splits)

lemma kinded_handleAuthRequest [kinded_simps]:
  "kinded s \<Longrightarrow> kinded (snd (handleAuthRequest alone e d s))"
  by (simp add: handleAuthRequest_def alone_def Let_def split_def kinded_simps
      split: option.splits)

lemma kinded_getAuthStatus [kinded_simps]:
  "kinded s \<Longrightarrow> kinded (snd (getAuthStatus e s))"
  by (simp add: getAuthStatus_def split_def kinded_simps)

lemma kinded_forceReauth [kinded_simps]:
  "kinded s \<Longrightarrow> kinded (snd (forceReauth alone e d s))"
  by (simp add: forceReauth_def alone_def Let_def kinded_simps)

lemma kinded_FETCH_begin [kinded_simps]:
  "kinded s \<Longrightarrow> kinded (snd (FETCH_USERS_CARD_STATUS_begin e msg s))"
  by (simp add: FETCH_USERS_CARD_STATUS_begin_def Let_def split_def kinded_simps
      split: option.splits)

subsection \<open>The entries of the in-memory cache\<close>

named_theorems ttl_simps

lemma short_lived_refl [ttl_simps]: "short_lived e c c"
  by (simp add: short_lived_def)

lemma short_lived_get [ttl_simps]:
  "short_lived e c0 c \<Longrightarrow> short_lived e c0 (snd (Cache_get now key c))"
  by (auto simp: short_lived_def Cache_get_def split: option.splits if_splits)

lemma fresh_entry_set [ttl_simps]:
  "fresh_entry e ''health_check'' (clock e 150 + 60000)"
  "fresh_entry e ''health_check'' (clock e 163 + 30000)"
  "fresh_entry e ''required_cookies'' (clock e 208 + 30000)"
  "fresh_entry e ''remember_cookies'' (clock e 235 + 30000)"
  by (simp_all add: fresh_entry_def)

lemma short_lived_set [ttl_simps]:
  assumes "short_lived e c0 c" and "fresh_entry e key (now + ttl)"
  shows "short_lived e c0 (Cache_set now key v (Some ttl) c)"
  unfolding short_lived_def
proof (intro allI impI)
  fix k item
  assume a: "Cache_set now key v (Some ttl) c k = Some item"
  show "c0 k = Some item \<or> fresh_entry e k (expiry item)"
  proof (cases "k = key")
    case True
    with a have "expiry item = now + ttl" by (auto simp: Cache_set_def)
    with True assms(2) show ?thesis by simp
  next
    case False
    with a have "c k = Some item" by (simp add: Cache_set_def)
    with assms(1) show ?thesis by (simp add: short_lived_def)
  qed
qed

lemma short_lived_clear [ttl_simps]: "short_lived e c0 (Cache_clear c)"
  by (simp add: short_lived_def Cache_clear_def)

lemma ttl_checkHealth [ttl_simps]:
  "short_lived e c0 (Cache_data s) \<Longrightarrow> short_lived e c0 (Cache_data (snd (checkHealth e s)))"
  by (simp add: checkHealth_def Let_def split_def cd_simps ttl_simps
      split: option.splits cached.splits sum.splits)

lemma ttl_getRequiredCookies [ttl_simps]:
  "short_lived e c0 (Cache_data s) \<Longrightarrow>
     short_lived e c0 (Cache_data (snd (getRequiredCookies e s)))"
  by (simp add: getRequiredCookies_def Let_def split_def cd_simps ttl_simps
      split: option.splits cached.splits)

lemma ttl_getRememberWebCookies [ttl_simps]:
  "short_lived e c0 (Cache_data s) \<Longrightarrow>
     short_lived e c0 (Cache_data (snd (getRememberWebCookies e s)))"
  by (simp add: getRememberWebCookies_def Let_def split_def cd_simps ttl_simps
      split: option.splits cached.splits)

lemma ttl_getAllRelevantCookies [ttl_simps]:
  "short_lived e c0 (Cache_data s) \<Longrightarrow>
     short_lived e c0 (Cache_data (snd (getAllRelevantCookies e s)))"
  by (simp add: getAllRelevantCookies_def split_def ttl_simps)

lemma ttl_executeAuth [ttl_simps]:
  "short_lived e c0 (Cache_data s) \<Longrightarrow>
     short_lived e c0 (Cache_data (snd (executeAuth e u c s)))"
  by (simp add: executeAuth_def executeAuth_success_def Let_def split_def cd_simps ttl_simps
      split: sum.splits auth_json.splits)

lemma ttl_performAuthentication [ttl_simps]:
  "short_lived e c0 (Cache_data s) \<Longrightarrow>
     short_lived e c0 (Cache_data (snd (performAuthentication e d s)))"
  by (simp add: performAuthentication_def split_def ttl_simps split: option.splits)

lemma ttl_handleAuthRequest [ttl_simps]:
  "short_lived e c0 (Cache_data s) \<Longrightarrow>
     short_lived e c0 (Cache_data (snd (handleAuthRequest alone e d s)))"
  by (simp add: handleAuthRequest_def alone_def Let_def split_def cd_simps ttl_simps
      split: option.splits)

lemma ttl_getAuthStatus [ttl_simps]:
  "short_lived e c0 (Cache_data s) \<Longrightarrow>
     short_lived e c0 (Cache_data (snd (getAuthStatus e s)))"
  by (simp add: getAuthStatus_def split_def cd_simps ttl_simps)

lemma ttl_forceReauth [ttl_simps]:
  "short_lived e c0 (Cache_data (snd (forceReauth alone e d s)))"
  by (simp add: forceReauth_def alone_def Let_def cd_simps ttl_simps)

lemma ttl_FETCH_begin [ttl_simps]:
  "short_lived e c0 (Cache_data s) \<Longrightarrow>
     short_lived e c0 (Cache_data (snd (FETCH_USERS_CARD_STATUS_begin e msg s)))"
  by (simp add: FETCH_USERS_CARD_STATUS_begin_def Let_def split_def cd_simps ttl_simps
      split: option.splits)

subsection \<open>Every handler of the table\<close>

text \<open>
  Each of the eleven handlers writes to \<^verbatim>\<open>chrome.storage.local\<close> under the three
  keys only, keeps the state kinded, adds short-lived cache entries only, and sends one
  response and does not reject.
\<close>

lemma handlers_cases:
  assumes "(t, h) \<in> set MessageHandlers"
  obtains "h = HANDLE_AUTH" | "h = GET_AUTH_STATUS" | "h = FORCE_REAUTH" | "h = CLEAR_TOKEN"
    | "h = GET_TOKEN" | "h = SET_USER_STATUS" | "h = GET_COOKIES" | "h = CHECK_HEALTH"
    | "h = GET_HEALTH_CATEGORY" | "h = FETCH_USERS_CARD_STATUS"
    | "h = FETCH_USERS_BY_CATEGORY"
  using assms by (auto simp: MessageHandlers_def)

lemma local_handlers:
  assumes "(t, h) \<in> set MessageHandlers"
    and "k \<noteq> TOKEN" and "k \<noteq> AUTH_META" and "k \<noteq> HEALTH_CACHE"
  shows "storage_local (snd (h e msg s)) k = storage_local s k"
  using assms(1)
proof (cases rule: handlers_cases)
  case 1 with assms show ?thesis by (simp add: HANDLE_AUTH_def split_def local_simps)
next
  case 2 with assms show ?thesis by (simp add: GET_AUTH_STATUS_def split_def local_simps)
next
  case 3 with assms show ?thesis by (simp add: FORCE_REAUTH_def split_def local_simps)
next
  case 4 with assms show ?thesis by (simp add: CLEAR_TOKEN_def local_simps)
next
  case 5 with assms show ?thesis by (simp add: GET_TOKEN_def split_def local_simps)
next
  case 6 with assms show ?thesis
    by (simp add: SET_USER_STATUS_def split_def local_simps split: option.splits sum.splits)
next
  case 7 with assms show ?thesis by (simp add: GET_COOKIES_def split_def local_simps)
next
  case 8 with assms show ?thesis by (simp add: CHECK_HEALTH_def split_def local_simps)
next
  case 9 with assms show ?thesis
    by (simp add: GET_HEALTH_CATEGORY_def Let_def split_def local_simps
        split: option.splits stored.splits)
next
  case 10 with assms show ?thesis
    by (simp add: FETCH_USERS_CARD_STATUS_def FETCH_USERS_CARD_STATUS_settle_def
        split_def local_simps split: fetch_begin.splits)
next
  case 11 with assms show ?thesis
    by (simp add: FETCH_USERS_BY_CATEGORY_def split_def local_simps
        split: option.splits sum.splits)
qed

lemma kinded_handlers:
  assumes "(t, h) \<in> set MessageHandlers" and "kinded s"
  shows "kinded (snd (h e msg s))"
  using assms(1)
proof (cases rule: handlers_cases)
  case 1 with assms show ?thesis by (simp add: HANDLE_AUTH_def split_def kinded_simps)
next
  case 2 with assms show ?thesis by (simp add: GET_AUTH_STATUS_def split_def kinded_simps)
next
  case 3 with assms show ?thesis by (simp add: FORCE_REAUTH_def split_def kinded_simps)
next
  case 4 with assms show ?thesis by (simp add: CLEAR_TOKEN_def kinded_simps)
next
  case 5 with assms show ?thesis by (simp add: GET_TOKEN_def split_def kinded_simps)
next
  case 6 with assms show ?thesis
    by (simp add: SET_USER_STATUS_def split_def kinded_simps split: option.splits sum.splits)
next
  case 7 with assms show ?thesis by (simp add: GET_COOKIES_def split_def kinded_simps)
next
  case 8 with assms show ?thesis by (simp add: CHECK_HEALTH_def split_def kinded_simps)
next
  case 9 with assms show ?thesis
    by (simp add: GET_HEALTH_CATEGORY_def Let_def split_def kinded_simps
        split: option.splits stored.splits)
next
  case 10 with assms show ?thesis
    by (simp add: FETCH_USERS_CARD_STATUS_def FETCH_USERS_CARD_STATUS_settle_def
        split_def kinded_simps split: fetch_begin.splits)
next
  case 11 with assms show ?thesis
    by (simp add: FETCH_USERS_BY_CATEGORY_def split_def kinded_simps
        split: option.splits sum.splits)
qed

lemma ttl_handlers:
  assumes "(t, h) \<in> set MessageHandlers"
  shows "short_lived e (Cache_data s) (Cache_data (snd (h e msg s)))"
  using assms(1)
proof (cases rule: handlers_cases)
  case 1 then show ?thesis by (simp add: HANDLE_AUTH_def split_def cd_simps ttl_simps)
next
  case 2 then show ?thesis by (simp add: GET_AUTH_STATUS_def split_def cd_simps ttl_simps)
next
  case 3 then show ?thesis by (simp add: FORCE_REAUTH_def split_def cd_simps ttl_simps)
next
  case 4 then show ?thesis by (simp add: CLEAR_TOKEN_def cd_simps ttl_simps)
next
  case 5 then show ?thesis by (simp add: GET_TOKEN_def split_def cd_simps ttl_simps)
next
  case 6 then show ?thesis
    by (simp add: SET_USER_STATUS_def split_def cd_simps ttl_simps
        split: option.splits sum.splits)
next
  case 7 then show ?thesis by (simp add: GET_COOKIES_def split_def cd_simps ttl_simps)
next
  case 8 then show ?thesis by (simp add: CHECK_HEALTH_def split_def cd_simps ttl_simps)
next
  case 9 then show ?thesis
    by (simp add: GET_HEALTH_CATEGORY_def Let_def split_def cd_simps ttl_simps
        split: option.splits stored.splits)
next
  case 10 then show ?thesis
    by (simp add: FETCH_USERS_CARD_STATUS_def FETCH_USERS_CARD_STATUS_settle_def
        split_def cd_simps ttl_simps split: fetch_begin.splits)
next
  case 11 then show ?thesis
    by (simp add: FETCH_USERS_BY_CATEGORY_def split_def cd_simps ttl_simps
        split: option.splits sum.splits)
qed

lemma FETCH_begin_Started:
  assumes "fst (FETCH_USERS_CARD_STATUS_begin e msg s) = Started k p"
  shows "PendingUserStatusRequests s k = None
     \<and> PendingUserStatusRequests (snd (FETCH_USERS_CARD_STATUS_begin e msg s))
         = (PendingUserStatusRequests s)(k \<mapsto> p)"
proof (cases "msg_data msg")
  case None
  with assms show ?thesis by (simp add: FETCH_USERS_CARD_STATUS_begin_def)
next
  case (Some d)
  show ?thesis
  proof (cases "d_users d")
    case None
    with Some assms show ?thesis by (simp add: FETCH_USERS_CARD_STATUS_begin_def)
  next
    case users: (Some users)
    show ?thesis
    proof (cases "makeCacheKey (case d_card_id d of Some c \<Rightarrow> c | None \<Rightarrow> []) users")
      case None
      with Some users assms show ?thesis
        by (simp add: FETCH_USERS_CARD_STATUS_begin_def split: if_splits)
    next
      case key: (Some key)
      with Some users assms show ?thesis
        by (cases "PendingUserStatusRequests s key")
           (auto simp: FETCH_USERS_CARD_STATUS_begin_def makeRequest_def split: if_splits)
    qed
  qed
qed

lemma FETCH_begin_not_Started:
  assumes "\<And>k p. fst (FETCH_USERS_CARD_STATUS_begin e msg s) \<noteq> Started k p"
  shows "snd (FETCH_USERS_CARD_STATUS_begin e msg s) = s"
proof (cases "msg_data msg")
  case None
  then show ?thesis by (simp add: FETCH_USERS_CARD_STATUS_begin_def)
next
  case (Some d)
  show ?thesis
  proof (cases "d_users d")
    case None
    with Some show ?thesis by (simp add: FETCH_USERS_CARD_STATUS_begin_def)
  next
    case users: (Some users)
    show ?thesis
    proof (cases "makeCacheKey (case d_card_id d of Some c \<Rightarrow> c | None \<Rightarrow> []) users")
      case None
      with Some users show ?thesis
        by (simp add: FETCH_USERS_CARD_STATUS_begin_def)
    next
      case key: (Some key)
      with Some users assms [of key "api_response e"] show ?thesis
        by (cases "PendingUserStatusRequests s key")
           (auto simp: FETCH_USERS_CARD_STATUS_begin_def makeRequest_def split: if_splits)
    qed
  qed
qed

lemma pend_FETCH_begin:
  "PendingUserStatusRequests (snd (FETCH_USERS_CARD_STATUS_begin e msg s))
     = PendingUserStatusRequests s
   \<or> (\<exists>k p. fst (FETCH_USERS_CARD_STATUS_begin e msg s) = Started k p
         \<and> PendingUserStatusRequests s k = None
         \<and> PendingUserStatusRequests (snd (FETCH_USERS_CARD_STATUS_begin e msg s))
             = (PendingUserStatusRequests s)(k \<mapsto> p))"
proof (cases "\<exists>k p. fst (FETCH_USERS_CARD_STATUS_begin e msg s) = Started k p")
  case True
  then show ?thesis using FETCH_begin_Started [of e msg s] by blast
next
  case False
  then have "snd (FETCH_USERS_CARD_STATUS_begin e msg s) = s"
    by (intro FETCH_begin_not_Started) blast
  then show ?thesis by simp
qed

lemma pend_FETCH:
  "PendingUserStatusRequests (snd (FETCH_USERS_CARD_STATUS e msg s))
     = PendingUserStatusRequests s"
proof (cases "fst (FETCH_USERS_CARD_STATUS_begin e msg s)")
  case (Answered r)
  then have "snd (FETCH_USERS_CARD_STATUS_begin e msg s) = s"
    by (intro FETCH_begin_not_Started) simp
  with Answered show ?thesis
    by (simp add: FETCH_USERS_CARD_STATUS_def split_def)
next
  case (Waiting p)
  then have "snd (FETCH_USERS_CARD_STATUS_begin e msg s) = s"
    by (intro FETCH_begin_not_Started) simp
  with Waiting show ?thesis
    by (simp add: FETCH_USERS_CARD_STATUS_def split_def)
next
  case (Started k p)
  from FETCH_begin_Started [OF this] Started show ?thesis
    by (simp add: FETCH_USERS_CARD_STATUS_def FETCH_USERS_CARD_STATUS_settle_def split_def
        fun_upd_idem_iff)
qed

lemma pend_handlers:
  assumes "(t, h) \<in> set MessageHandlers"
  shows "PendingUserStatusRequests (snd (h e msg s)) = PendingUserStatusRequests s"
  using assms(1)
proof (cases rule: handlers_cases)
  case 1 then show ?thesis by (simp add: HANDLE_AUTH_def split_def pend_simps)
next
  case 2 then show ?thesis by (simp add: GET_AUTH_STATUS_def split_def pend_simps)
next
  case 3 then show ?thesis by (simp add: FORCE_REAUTH_def split_def pend_simps)
next
  case 4 then show ?thesis by (simp add: CLEAR_TOKEN_def pend_simps)
next
  case 5 then show ?thesis by (simp add: GET_TOKEN_def split_def pend_simps)
next
  case 6 then show ?thesis
    by (simp add: SET_USER_STATUS_def split_def pend_simps split: option.splits sum.splits)
next
  case 7 then show ?thesis by (simp add: GET_COOKIES_def split_def pend_simps)
next
  case 8 then show ?thesis by (simp add: CHECK_HEALTH_def split_def pend_simps)
next
  case 9 then show ?thesis
    by (simp add: GET_HEALTH_CATEGORY_def Let_def split_def pend_simps
        split: option.splits stored.splits)
next
  case 10 then show ?thesis by (simp add: pend_FETCH)
next
  case 11 then show ?thesis
    by (simp add: FETCH_USERS_BY_CATEGORY_def split_def pend_simps
        split: option.splits sum.splits)
qed

lemma handlers_one_response:
  assumes "(t, h) \<in> set MessageHandlers"
  shows "length (sent (fst (h e msg s))) = 1 \<and> rejected (fst (h e msg s)) = None"
  using assms(1)
proof (cases rule: handlers_cases)
  case 1 then show ?thesis by (simp add: resolved_def HANDLE_AUTH_def split_def)
next
  case 2 then show ?thesis by (simp add: resolved_def GET_AUTH_STATUS_def split_def)
next
  case 3 then show ?thesis by (simp add: resolved_def FORCE_REAUTH_def split_def)
next
  case 4 then show ?thesis by (simp add: resolved_def CLEAR_TOKEN_def)
next
  case 5 then show ?thesis by (simp add: resolved_def GET_TOKEN_def split_def)
next
  case 6 then show ?thesis
    by (simp add: resolved_def SET_USER_STATUS_def split_def split: option.splits sum.splits)
next
  case 7 then show ?thesis by (simp add: resolved_def GET_COOKIES_def split_def)
next
  case 8 then show ?thesis by (simp add: resolved_def CHECK_HEALTH_def split_def)
next
  case 9 then show ?thesis
    by (simp add: resolved_def GET_HEALTH_CATEGORY_def Let_def split_def
        split: option.splits stored.splits)
next
  case 10 then show ?thesis
    by (simp add: resolved_def FETCH_USERS_CARD_STATUS_def
        FETCH_USERS_CARD_STATUS_settle_def split_def split: fetch_begin.splits)
next
  case 11 then show ?thesis
    by (simp add: resolved_def FETCH_USERS_BY_CATEGORY_def split_def
        split: option.splits sum.splits)
qed

subsection \<open>The keys of extension storage\<close>

lemma local_onMessage:
  assumes "k \<noteq> TOKEN" and "k \<noteq> AUTH_META" and "k \<noteq> HEALTH_CACHE"
  shows "storage_local (snd (onMessage e msg s)) k = storage_local s k"
proof (cases "map_of MessageHandlers (msg_type msg)")
  case None
  then show ?thesis by (simp add: onMessage_def listener_def get_property_def)
next
  case (Some h)
  then have "(msg_type msg, h) \<in> set MessageHandlers" by (rule map_of_SomeD)
  from local_handlers [OF this assms] Some show ?thesis
    by (simp add: onMessage_def listener_def get_property_def split_def)
qed

lemma local_run_operation:
  assumes "k \<noteq> TOKEN" and "k \<noteq> AUTH_META" and "k \<noteq> HEALTH_CACHE"
  shows "storage_local (run_operation e op s) k = storage_local s k"
  using assms
  by (cases op) (simp_all add: run_operation_def local_onMessage StorageManager_clearCache_def)

lemma local_run_operations:
  "k \<noteq> TOKEN \<Longrightarrow> k \<noteq> AUTH_META \<Longrightarrow> k \<noteq> HEALTH_CACHE \<Longrightarrow>
     storage_local (run_operations ops s) k = storage_local s k"
  by (induction ops arbitrary: s) (auto simp: local_run_operation)

lemma kinded_onMessage:
  assumes "kinded s"
  shows "kinded (snd (onMessage e msg s))"
proof (cases "map_of MessageHandlers (msg_type msg)")
  case None
  with assms show ?thesis by (simp add: onMessage_def listener_def get_property_def)
next
  case (Some h)
  then have "(msg_type msg, h) \<in> set MessageHandlers" by (rule map_of_SomeD)
  from kinded_handlers [OF this assms] Some show ?thesis
    by (simp add: onMessage_def listener_def get_property_def split_def)
qed

lemma kinded_run_operation:
  "kinded s \<Longrightarrow> kinded (run_operation e op s)"
  by (cases op) (simp_all add: run_operation_def kinded_onMessage kinded_simps)

lemma kinded_run_operations:
  "kinded s \<Longrightarrow> kinded (run_operations ops s)"
  by (induction ops arbitrary: s) (auto simp: kinded_run_operation)

lemma kinded_initial: "kinded initial"
  by (simp add: kinded_def initial_def)

lemma ttl_onMessage:
  "short_lived e (Cache_data s) (Cache_data (snd (onMessage e msg s)))"
proof (cases "map_of MessageHandlers (msg_type msg)")
  case None
  then show ?thesis by (simp add: onMessage_def listener_def get_property_def ttl_simps)
next
  case (Some h)
  then have "(msg_type msg, h) \<in> set MessageHandlers" by (rule map_of_SomeD)
  from ttl_handlers [OF this] Some show ?thesis
    by (simp add: onMessage_def listener_def get_property_def split_def)
qed

lemma ttl_run_operation:
  "short_lived e (Cache_data s) (Cache_data (run_operation e op s))"
  by (cases op)
     (simp_all add: run_operation_def ttl_onMessage ttl_simps StorageManager_clearCache_def)

lemma pend_onMessage:
  "PendingUserStatusRequests (snd (onMessage e msg s)) = PendingUserStatusRequests s"
proof (cases "map_of MessageHandlers (msg_type msg)")
  case None
  then show ?thesis by (simp add: onMessage_def listener_def get_property_def)
next
  case (Some h)
  then have "(msg_type msg, h) \<in> set MessageHandlers" by (rule map_of_SomeD)
  from pend_handlers [OF this] Some show ?thesis
    by (simp add: onMessage_def listener_def get_property_def split_def)
qed

lemma pend_run_operation:
  "PendingUserStatusRequests (run_operation e op s) = PendingUserStatusRequests s"
  by (cases op) (simp_all add: run_operation_def pend_onMessage pend_simps)

text \<open>
  Claim C4, as the code has it. Whatever operations the background script runs, from any
  state, the value of \<^verbatim>\<open>chrome.storage.local\<close> under a key other than the token
  key, the auth-meta key and the health-cache key is what it was: these three are the
  only keys written. Started on the empty store, or on any store whose values fit their
  keys, what is persisted under the token key, and mirrored in
  \<^verbatim>\<open>StorageManager.cache\<close>, is a token, under the auth-meta key a metadata record,
  and under the health-cache key the record \<^verbatim>\<open>{ category, timestamp }\<close> of
  \<^verbatim>\<open>checkHealth\<close>. What else the script caches is in memory, keyed by string. Every
  entry that an operation adds to \<^verbatim>\<open>Cache\<close> is the health object, expiring 60
  seconds after it was set (30 seconds for an error), or an object of cookies, expiring
  30 seconds after it was set. The promise of a \<^verbatim>\<open>FETCH_USERS_CARD_STATUS\<close> request
  is stored in \<^verbatim>\<open>PendingUserStatusRequests\<close> under the key of the request when the
  request is sent, and nothing else is stored there; the entry has no expiry, no
  operation at whatever time removes it, and it is deleted when the promise settles.
\<close>

theorem storage_keys_written:
  "(key \<noteq> TOKEN \<and> key \<noteq> AUTH_META \<and> key \<noteq> HEALTH_CACHE \<longrightarrow>
      storage_local (run_operations ops s) key = storage_local s key)
   \<and> (kinded s \<and> (storage_local (run_operations ops s) key = Some v
                   \<or> StorageManager_cache (run_operations ops s) key = Some (Some v)) \<longrightarrow>
        (key = TOKEN \<and> (\<exists>t. v = StoredToken t))
        \<or> (key = AUTH_META \<and> (\<exists>m. v = StoredMeta m))
        \<or> (key = HEALTH_CACHE \<and> (\<exists>h. v = StoredHealth h)))
   \<and> (Cache_data (run_operation e op s) ck = Some item \<longrightarrow>
        Cache_data s ck = Some item
        \<or> (ck = ''health_check''
            \<and> (expiry item = clock e 150 + 60000 \<or> expiry item = clock e 163 + 30000))
        \<or> (ck = ''required_cookies'' \<and> expiry item = clock e 208 + 30000)
        \<or> (ck = ''remember_cookies'' \<and> expiry item = clock e 235 + 30000))
   \<and> PendingUserStatusRequests (run_operation e op s) = PendingUserStatusRequests s
   \<and> (PendingUserStatusRequests (snd (FETCH_USERS_CARD_STATUS_begin e msg s))
         = PendingUserStatusRequests s
       \<or> (\<exists>k p. fst (FETCH_USERS_CARD_STATUS_begin e msg s) = Started k p
             \<and> PendingUserStatusRequests s k = None
             \<and> PendingUserStatusRequests (snd (FETCH_USERS_CARD_STATUS_begin e msg s))
                 = (PendingUserStatusRequests s)(k \<mapsto> p)))
   \<and> PendingUserStatusRequests (snd (FETCH_USERS_CARD_STATUS_settle k p s))
        = (PendingUserStatusRequests s)(k := None)"
proof (intro conjI impI)
  assume "key \<noteq> TOKEN \<and> key \<noteq> AUTH_META \<and> key \<noteq> HEALTH_CACHE"
  then show "storage_local (run_operations ops s) key = storage_local s key"
    by (simp add: local_run_operations)
next
  assume a: "kinded s \<and> (storage_local (run_operations ops s) key = Some v
                   \<or> StorageManager_cache (run_operations ops s) key = Some (Some v))"
  then have "kinded (run_operations ops s)"
    by (simp add: kinded_run_operations)
  with a have "kind_ok key v"
    unfolding kinded_def by blast
  then show "(key = TOKEN \<and> (\<exists>t. v = StoredToken t))
        \<or> (key = AUTH_META \<and> (\<exists>m. v = StoredMeta m))
        \<or> (key = HEALTH_CACHE \<and> (\<exists>h. v = StoredHealth h))"
    by (cases v) (simp_all add: kind_ok_def)
next
  assume "Cache_data (run_operation e op s) ck = Some item"
  with ttl_run_operation [of e s op]
  have "Cache_data s ck = Some item \<or> fresh_entry e ck (expiry item)"
    unfolding short_lived_def by blast
  then show "Cache_data s ck = Some item
        \<or> (ck = ''health_check''
            \<and> (expiry item = clock e 150 + 60000 \<or> expiry item = clock e 163 + 30000))
        \<or> (ck = ''required_cookies'' \<and> expiry item = clock e 208 + 30000)
        \<or> (ck = ''remember_cookies'' \<and> expiry item = clock e 235 + 30000)"
    by (simp add: fresh_entry_def)
next
  show "PendingUserStatusRequests (run_operation e op s) = PendingUserStatusRequests s"
    by (rule pend_run_operation)
next
  show "PendingUserStatusRequests (snd (FETCH_USERS_CARD_STATUS_begin e msg s))
         = PendingUserStatusRequests s
       \<or> (\<exists>k p. fst (FETCH_USERS_CARD_STATUS_begin e msg s) = Started k p
             \<and> PendingUserStatusRequests s k = None
             \<and> PendingUserStatusRequests (snd (FETCH_USERS_CARD_STATUS_begin e msg s))
                 = (PendingUserStatusRequests s)(k \<mapsto> p))"
    by (rule pend_FETCH_begin)
next
  show "PendingUserStatusRequests (snd (FETCH_USERS_CARD_STATUS_settle k p s))
        = (PendingUserStatusRequests s)(k := None)"
    by (simp add: FETCH_USERS_CARD_STATUS_settle_def)
qed

lemma check_health_example:
  "storage_local (run_operation healthy_env (OnMessage check_health_message) initial)
     = [HEALTH_CACHE \<mapsto> StoredHealth \<lparr>hc_category = [], timestamp = 1000\<rparr>]"
  "Cache_data (run_operation healthy_env (OnMessage check_health_message) initial)
     = [''health_check'' \<mapsto>
          \<lparr>item_value =
             CachedHealth
               \<lparr>h_status = Some ''healthy'', h_category = Some [], h_error = None\<rparr>,
           expiry = 61000\<rparr>]"
  by (simp_all add: run_operation_def onMessage_def listener_def get_property_def
      MessageHandlers_def CHECK_HEALTH_def checkHealth_def Cache_get_def Cache_set_def
      makeRequest_def StorageManager_set_def initial_def healthy_env_def resolved_def
      check_health_message_def)

lemma fetch_example:
  "FETCH_USERS_CARD_STATUS_begin healthy_env fetch_message initial
     = (Started ''7:a,b'' (Inr []),
        initial\<lparr>requests :=
                  [Req_users_card_status (Some ''t'') (Some ''7'')
                     [UserObject (Some ''a''), UserId ''b'']],
                PendingUserStatusRequests := [''7:a,b'' \<mapsto> Inr []]\<rparr>)"
  by (simp add: FETCH_USERS_CARD_STATUS_begin_def fetch_message_def example_data_def
      makeCacheKey_def user_key_def makeRequest_def truthy_def initial_def healthy_env_def)

theorem storage_keys_written_witness:
  "kinded initial
   \<and> storage_local
     (run_operations [(healthy_env, OnMessage check_health_message)] initial) ''other''
     = storage_local initial ''other''
   \<and> storage_local
       (run_operations [(healthy_env, OnMessage check_health_message)] initial) HEALTH_CACHE
     = Some (StoredHealth \<lparr>hc_category = [], timestamp = 1000\<rparr>)
   \<and> Cache_data (run_operation healthy_env (OnMessage check_health_message) initial)
       ''health_check''
     = Some \<lparr>item_value =
          CachedHealth \<lparr>h_status = Some ''healthy'', h_category = Some [], h_error = None\<rparr>,
        expiry = clock healthy_env 150 + 60000\<rparr>
   \<and> PendingUserStatusRequests (snd (FETCH_USERS_CARD_STATUS_begin healthy_env
        fetch_message initial)) = [''7:a,b'' \<mapsto> Inr []]"
  using
    storage_keys_written [of "''other''" "[(healthy_env, OnMessage check_health_message)]"
      initial "StoredHealth \<lparr>hc_category = [], timestamp = 1000\<rparr>" healthy_env
      "OnMessage check_health_message" "''health_check''"
      "\<lparr>item_value =
          CachedHealth \<lparr>h_status = Some ''healthy'', h_category = Some [], h_error = None\<rparr>,
        expiry = 61000\<rparr>" fetch_message "''7:a,b''" "Inr []"]
    check_health_example fetch_example kinded_initial
  by (simp add: TOKEN_def AUTH_META_def HEALTH_CACHE_def initial_def healthy_env_def)

text \<open>
  Claim C4 as it is stated fails twice. A key written to \<^verbatim>\<open>chrome.storage.local\<close>
  is neither the token key nor the auth-meta key: on the empty store, the message
  \<^verbatim>\<open>CHECK_HEALTH\<close> with a healthy API that reports categories leaves a record under
  the key \<^verbatim>\<open>mbf_health_cache\<close> (line 154). And something cached is in no entry with
  a TTL: a valid \<^verbatim>\<open>FETCH_USERS_CARD_STATUS\<close> message on the empty state stores the
  promise of its request in \<^verbatim>\<open>PendingUserStatusRequests\<close> (line 660) and nothing
  in \<^verbatim>\<open>Cache\<close>, and the periodic clean-up, at a time as late as one likes, leaves
  the promise where it is.
\<close>

theorem checkHealth_writes_health_cache_key:
  "storage_local (run_operation healthy_env (OnMessage check_health_message) initial)
       HEALTH_CACHE
     = Some (StoredHealth \<lparr>hc_category = [], timestamp = 1000\<rparr>)
   \<and> storage_local initial HEALTH_CACHE = None
   \<and> HEALTH_CACHE \<noteq> TOKEN \<and> HEALTH_CACHE \<noteq> AUTH_META
   \<and> PendingUserStatusRequests
       (snd (FETCH_USERS_CARD_STATUS_begin healthy_env fetch_message initial)) ''7:a,b''
     = Some (Inr [])
   \<and> Cache_data (snd (FETCH_USERS_CARD_STATUS_begin healthy_env fetch_message initial))
       ''7:a,b'' = None
   \<and> PendingUserStatusRequests
       (run_operation (healthy_env\<lparr>clock := (\<lambda>n. 1000000000)\<rparr>) Periodic
          (snd (FETCH_USERS_CARD_STATUS_begin healthy_env fetch_message initial))) ''7:a,b''
     = Some (Inr [])"
proof -
  have a: "storage_local (run_operation healthy_env (OnMessage check_health_message) initial)
       HEALTH_CACHE
     = Some (StoredHealth \<lparr>hc_category = [], timestamp = 1000\<rparr>)
   \<and> storage_local initial HEALTH_CACHE = None
   \<and> HEALTH_CACHE \<noteq> TOKEN \<and> HEALTH_CACHE \<noteq> AUTH_META"
    by (simp add: check_health_example keys_distinct) (simp add: initial_def)
  have b: "PendingUserStatusRequests
       (snd (FETCH_USERS_CARD_STATUS_begin healthy_env fetch_message initial)) ''7:a,b''
     = Some (Inr [])
   \<and> Cache_data (snd (FETCH_USERS_CARD_STATUS_begin healthy_env fetch_message initial))
       ''7:a,b'' = None
   \<and> PendingUserStatusRequests
       (run_operation (healthy_env\<lparr>clock := (\<lambda>n. 1000000000)\<rparr>) Periodic
          (snd (FETCH_USERS_CARD_STATUS_begin healthy_env fetch_message initial))) ''7:a,b''
     = Some (Inr [])"
    by (simp add: fetch_example run_operation_def) (simp add: initial_def)
  from a b show ?thesis by blast
qed

subsection \<open>The responses of the listener\<close>

text \<open>
  For a type that names a handler of the table, the listener does not throw and exactly
  one response reaches the sender. A handler that rejects gets the response
  \<^verbatim>\<open>{ success: false, error }\<close> with the message of its error, after what it sent
  itself. For a type that is no property of the table at all, the sender receives
  \<^verbatim>\<open>{ error: "Unknown message type" }\<close>.
\<close>

lemma onMessage_own_handler_one_response:
  assumes "map_of MessageHandlers (msg_type msg) = Some h"
  shows "\<exists>r. fst (onMessage e msg s) = (Returned True, [r])"
proof -
  from assms have "(msg_type msg, h) \<in> set MessageHandlers" by (rule map_of_SomeD)
  from handlers_one_response [OF this, of e msg s]
  obtain r where "sent (fst (h e msg s)) = [r]" and "rejected (fst (h e msg s)) = None"
    by (auto simp: length_Suc_conv)
  with assms show ?thesis
    by (simp add: onMessage_def listener_def get_property_def split_def)
qed

lemma listener_rejected_handler:
  assumes "map_of handlers (msg_type msg) = Some h"
    and "h e msg s = (\<lparr>sent = rs, rejected = Some m\<rparr>, s1)"
  shows "listener handlers e msg s = ((Returned True, rs @ [Resp_failure m]), s1)"
  using assms by (simp add: listener_def get_property_def)

lemma onMessage_undefined_type:
  assumes "map_of MessageHandlers (msg_type msg) = None"
    and "msg_type msg \<notin> set Object_prototype_properties"
  shows "onMessage e msg s = ((Returned False, [Resp_unknown_type]), s)"
  using assms by (simp add: onMessage_def listener_def get_property_def)

text \<open>
  Claim C5 at the message \<^verbatim>\<open>{ type: "constructor" }\<close>. The type names no handler of
  the table, but \<^verbatim>\<open>MessageHandlers["constructor"]\<close> is the inherited function
  \<^verbatim>\<open>Object\<close>, which is truthy: the listener skips the branch for an unknown type,
  a TypeError leaves the listener, and no response is sent, in whatever state and
  environment.
\<close>

theorem onMessage_inherited_property_throws:
  "map_of MessageHandlers ''constructor'' = None
   \<and> onMessage e \<lparr>msg_type = ''constructor'', msg_data = d\<rparr> s
       = ((Thrown ''TypeError'', []), s)"
  by (simp add: onMessage_def listener_def get_property_def MessageHandlers_def
      Object_prototype_properties_def)

subsection \<open>The key of pending status requests\<close>

lemma sort_mset_eq:
  fixes xs ys :: "string list"
  assumes "mset xs = mset ys"
  shows "sort xs = sort ys"
  by (rule properties_for_sort) (simp_all add: assms)

lemma makeCacheKey_mset:
  assumes "mset users' = mset users"
  shows "makeCacheKey cardId users' = makeCacheKey cardId users"
proof -
  have "mset (map user_key users') = mset (map user_key users)"
    using assms by (metis mset_map)
  then have "sort (map user_key users') = sort (map user_key users)"
    by (rule sort_mset_eq)
  moreover have "set users' = set users"
    using assms by (rule mset_eq_setD)
  ultimately show ?thesis by (simp add: makeCacheKey_def)
qed

text \<open>
  Claim C10. For two lists of users that are permutations of each other, the key is the
  same, for every card id (and there is no key for either when an element is
  \<^verbatim>\<open>null\<close>). So when a valid request has been sent and its promise is
  stored under its key, a request for the same card and the same users in another order,
  arriving while that promise is pending, waits for the same promise, and the state, with
  the requests sent, stays as it is.
\<close>

theorem makeCacheKey_permutation_invariant:
  assumes perm: "mset users' = mset users"
    and valid: "truthy (d_token d)" "d_card_id d = Some cardId" "cardId \<noteq> []" "users \<noteq> []"
    and users: "d_users d = Some users"
    and key: "makeCacheKey cardId users = Some key"
    and fresh: "PendingUserStatusRequests s key = None"
  shows "(\<forall>c. makeCacheKey c users' = makeCacheKey c users)
    \<and> fst (FETCH_USERS_CARD_STATUS_begin e \<lparr>msg_type = t, msg_data = Some d\<rparr> s)
        = Started key (api_response e)
    \<and> requests (snd (FETCH_USERS_CARD_STATUS_begin e \<lparr>msg_type = t, msg_data = Some d\<rparr> s))
        = requests s @ [Req_users_card_status (d_token d) (d_card_id d) users]
    \<and> FETCH_USERS_CARD_STATUS_begin e'
          \<lparr>msg_type = t, msg_data = Some (d\<lparr>d_users := Some users'\<rparr>)\<rparr>
          (snd (FETCH_USERS_CARD_STATUS_begin e \<lparr>msg_type = t, msg_data = Some d\<rparr> s))
        = (Waiting (api_response e),
           snd (FETCH_USERS_CARD_STATUS_begin e \<lparr>msg_type = t, msg_data = Some d\<rparr> s))"
proof -
  have k: "makeCacheKey c users' = makeCacheKey c users" for c
    using perm by (rule makeCacheKey_mset)
  have ne: "users' \<noteq> []"
    using perm valid(4) by auto
  show ?thesis
    using valid users fresh ne key
    by (simp add: k FETCH_USERS_CARD_STATUS_begin_def makeRequest_def truthy_def)
qed

theorem makeCacheKey_permutation_invariant_witness:
  "makeCacheKey ''7'' [UserId ''b'', UserObject (Some ''a'')] = Some ''7:a,b''
   \<and> makeCacheKey ''7'' [UserObject (Some ''a''), UserId ''b''] = Some ''7:a,b''
   \<and> fst (FETCH_USERS_CARD_STATUS_begin healthy_env
        \<lparr>msg_type = ''FETCH_USERS_CARD_STATUS'', msg_data = Some example_data\<rparr> initial)
       = Started ''7:a,b'' (Inr [])
   \<and> fst (FETCH_USERS_CARD_STATUS_begin healthy_env
        \<lparr>msg_type = ''FETCH_USERS_CARD_STATUS'',
         msg_data = Some (example_data
           \<lparr>d_users := Some [UserId ''b'', UserObject (Some ''a'')]\<rparr>)\<rparr>
        (snd (FETCH_USERS_CARD_STATUS_begin healthy_env
          \<lparr>msg_type = ''FETCH_USERS_CARD_STATUS'', msg_data = Some example_data\<rparr> initial)))
       = Waiting (Inr [])"
proof -
  have k: "makeCacheKey ''7'' [UserObject (Some ''a''), UserId ''b''] = Some ''7:a,b''"
    by (simp add: makeCacheKey_def user_key_def)
  have p: "mset [UserId ''b'', UserObject (Some ''a'')]
             = mset [UserObject (Some ''a''), UserId ''b'']"
    by simp
  have v: "truthy (d_token example_data)" "d_card_id example_data = Some ''7''"
    "''7'' \<noteq> []" "[UserObject (Some ''a''), UserId ''b''] \<noteq> []"
    "d_users example_data = Some [UserObject (Some ''a''), UserId ''b'']"
    by (simp_all add: example_data_def truthy_def)
  have f: "PendingUserStatusRequests initial ''7:a,b'' = None"
    by (simp add: initial_def)
  from makeCacheKey_permutation_invariant [OF p v k f,
      of healthy_env "''FETCH_USERS_CARD_STATUS''" healthy_env] k
  show ?thesis
    by (simp add: healthy_env_def)
qed

subsection \<open>The guard of performAuthentication\<close>

lemma auth_inv_step: "auth_inv s \<Longrightarrow> auth_step ev s = Some s1 \<Longrightarrow> auth_inv s1"
  by (cases ev) (force simp: auth_inv_def less_Suc_eq split: option.splits if_splits)+

lemma reachable_auth_inv: "reachable s \<Longrightarrow> auth_inv s"
proof (induction rule: reachable.induct)
  case reachable_initial
  show ?case by (simp add: auth_inv_def auth_initial_def)
next
  case (reachable_step s ev s1)
  then show ?case by (blast intro: auth_inv_step)
qed

lemma auth_run_reachable:
  "reachable s \<Longrightarrow> auth_run evs s = Some s1 \<Longrightarrow> reachable s1"
proof (induction evs arbitrary: s)
  case Nil
  then show ?case by simp
next
  case (Cons ev evs)
  then show ?case
    by (auto split: option.splits intro: reachable_step)
qed

text \<open>
  Claim C2. In every state that interleaved calls of \<^verbatim>\<open>performAuthentication\<close> can
  reach, at most one \<^verbatim>\<open>_executeAuth\<close> is running, and the one that runs is the one
  whose promise the guard holds. A call made while the guard holds a promise returns that
  promise and changes nothing, so it starts no authentication. While the promise of the
  guard has not settled, the guard is not reset. Once it has settled, fulfilled or
  rejected, the continuation of the call that awaits it can run, and it sets the guard to
  \<^verbatim>\<open>null\<close>, with no authentication running.
\<close>

theorem single_inflight_authentication:
  assumes "reachable s"
  shows "length (running s) \<le> 1
     \<and> (\<forall>p. p \<in> set (running s) \<longrightarrow> pending_promise s = Some p)
     \<and> (\<forall>p. pending_promise s = Some p \<longrightarrow>
           auth_step Call s = Some s \<and> returned_promise s = p)
     \<and> (\<forall>p. pending_promise s = Some p \<longrightarrow> p \<in> set (running s) \<longrightarrow>
           auth_step (Resume p) s = None)
     \<and> (\<forall>p ok. pending_promise s = Some p \<longrightarrow> (p, ok) \<in> set (settled s) \<longrightarrow>
           (\<exists>s1. auth_step (Resume p) s = Some s1 \<and> pending_promise s1 = None
                 \<and> running s1 = []))"
proof -
  have inv: "auth_inv s"
    using assms by (rule reachable_auth_inv)
  show ?thesis
  proof (cases "pending_promise s")
    case None
    with inv show ?thesis by (simp add: auth_inv_def)
  next
    case (Some q)
    show ?thesis
    proof (cases "q \<in> set (map fst (settled s))")
      case True
      with inv Some show ?thesis
        by (simp add: auth_inv_def returned_promise_def)
    next
      case False
      with inv Some have "running s = [q]" "awaiting s = [q]"
        by (simp_all add: auth_inv_def)
      with Some False show ?thesis
        by (force simp: returned_promise_def)
    qed
  qed
qed

theorem single_inflight_authentication_witness:
  "reachable \<lparr>pending_promise = Some 0, running = [], settled = [(0, False)],
              awaiting = [0], created = 1\<rparr>
   \<and> length (running \<lparr>pending_promise = Some 0, running = [], settled = [(0, False)],
              awaiting = [0], created = 1\<rparr>) \<le> 1
   \<and> auth_step Call \<lparr>pending_promise = Some 0, running = [], settled = [(0, False)],
              awaiting = [0], created = 1\<rparr>
       = Some \<lparr>pending_promise = Some 0, running = [], settled = [(0, False)],
              awaiting = [0], created = 1\<rparr>
   \<and> (\<exists>s1. auth_step (Resume 0) \<lparr>pending_promise = Some 0, running = [],
              settled = [(0, False)], awaiting = [0], created = 1\<rparr> = Some s1
            \<and> pending_promise s1 = None \<and> running s1 = [])"
proof -
  have "auth_run [Call, Call, Settle 0 False] auth_initial =
          Some \<lparr>pending_promise = Some 0, running = [], settled = [(0, False)],
              awaiting = [0], created = 1\<rparr>"
    by (simp add: auth_initial_def)
  then have r: "reachable \<lparr>pending_promise = Some 0, running = [], settled = [(0, False)],
              awaiting = [0], created = 1\<rparr>"
    by (rule auth_run_reachable [OF reachable_initial])
  from single_inflight_authentication [OF r] r show ?thesis by simp
qed


end
